theory Spec2Isabelle
  imports Main "HOL-Library.Char_ord" "HOL-Library.List_Lexorder"
begin

text \<open>
  A shallow embedding of three parts of Showdex: the dehydrators of the hydration codec
  (\<open>utils/hydro/dehydrators.ts\<close>), the matchup adapter \<open>createSmogonPokemon\<close>
  (\<open>utils/calc/createSmogonPokemon.ts\<close>) and the preset matcher \<open>appliedPreset\<close>, with
  the properties of them that the specification states.
\<close>

section \<open>JavaScript values\<close>

text \<open>
  The values the hydration codec receives.  \<open>JUndefined\<close> and \<open>JNull\<close> are the two
  absent values; \<open>JNum\<close> holds an integer in the safe range (below \<open>10^21\<close> in
  magnitude), which JavaScript prints in plain decimal; \<open>JSymbol\<close> is a symbol with its
  description; \<open>JObj\<close> is a plain object, given by its own enumerable properties in
  enumeration order.  Objects that carry a \<open>toString\<close> of their own, or none at all, are
  outside this value model.
\<close>

datatype jsval =
    JUndefined
  | JNull
  | JBool bool
  | JNum int
  | JStr string
  | JSymbol string
  | JArr "jsval list"
  | JObj "(string \<times> jsval) list"

text \<open>The one exception the modelled code can throw.\<close>

datatype error = TypeError

text \<open>Truthiness, as \<open>!!v\<close> and the condition of \<open>v ? a : b\<close> read it.\<close>

fun truthy :: "jsval \<Rightarrow> bool" where
  "truthy JUndefined = False"
| "truthy JNull = False"
| "truthy (JBool b) = b"
| "truthy (JNum n) = (n \<noteq> 0)"
| "truthy (JStr s) = (s \<noteq> [])"
| "truthy (JSymbol d) = True"
| "truthy (JArr xs) = True"
| "truthy (JObj kvs) = True"

definition digitChar :: "nat \<Rightarrow> char" where
  "digitChar d = ''0123456789'' ! d"

fun showNat :: "nat \<Rightarrow> string" where
  "showNat n = (if n < 10 then [digitChar n] else showNat (n div 10) @ [digitChar (n mod 10)])"

declare showNat.simps [simp del]

text \<open>\<open>Number.prototype.toString\<close> on an integer.\<close>

definition showInt :: "int \<Rightarrow> string" where
  "showInt i = (if i < 0 then CHR ''-'' # showNat (nat (- i)) else showNat (nat i))"

text \<open>
  \<open>Array.prototype.join\<close>: the elements separated by the delimiter, an
  \<open>undefined\<close> or \<open>null\<close> element (\<open>None\<close>) contributing the empty string.
\<close>

fun joinArray :: "string \<Rightarrow> string option list \<Rightarrow> string" where
  "joinArray d [] = []"
| "joinArray d [x] = (case x of None \<Rightarrow> [] | Some s \<Rightarrow> s)"
| "joinArray d (x # y # ys) = (case x of None \<Rightarrow> [] | Some s \<Rightarrow> s) @ d @ joinArray d (y # ys)"

text \<open>
  \<open>value?.toString?.()\<close>: \<open>Inr None\<close> is the \<open>undefined\<close> the optional chain yields on
  an absent value.  A symbol prints as \<open>Symbol(description)\<close>.  An array prints as its
  elements joined by a comma: \<open>elementStrings\<close> converts the elements as \<open>join\<close> does,
  an absent element to nothing, a symbol to a \<open>TypeError\<close> (a symbol has no implicit
  conversion to a string), any other element through its own \<open>toString\<close>.
\<close>

fun toString :: "jsval \<Rightarrow> error + string option"
  and elementStrings :: "jsval list \<Rightarrow> error + string option list" where
  "toString JUndefined = Inr None"
| "toString JNull = Inr None"
| "toString (JBool b) = Inr (Some (if b then ''true'' else ''false''))"
| "toString (JNum n) = Inr (Some (showInt n))"
| "toString (JStr s) = Inr (Some s)"
| "toString (JSymbol d) = Inr (Some (''Symbol('' @ d @ '')''))"
| "toString (JArr xs) =
     (case elementStrings xs of
        Inl err \<Rightarrow> Inl err
      | Inr ss \<Rightarrow> Inr (Some (joinArray '','' ss)))"
| "toString (JObj kvs) = Inr (Some ''[object Object]'')"
| "elementStrings [] = Inr []"
| "elementStrings (x # xs) =
     (case (case x of JSymbol d \<Rightarrow> Inl TypeError | _ \<Rightarrow> toString x) of
        Inl err \<Rightarrow> Inl err
      | Inr s \<Rightarrow>
         (case elementStrings xs of
            Inl err \<Rightarrow> Inl err
          | Inr ss \<Rightarrow> Inr (s # ss)))"

text \<open>
  \<open>Array.prototype.map\<close> with a callback that may throw: the first exception ends the
  loop.
\<close>

fun mapThrowing :: "('a \<Rightarrow> error + 'b) \<Rightarrow> 'a list \<Rightarrow> error + 'b list" where
  "mapThrowing f [] = Inr []"
| "mapThrowing f (x # xs) =
     (case f x of
        Inl err \<Rightarrow> Inl err
      | Inr y \<Rightarrow>
         (case mapThrowing f xs of
            Inl err \<Rightarrow> Inl err
          | Inr ys \<Rightarrow> Inr (y # ys)))"

section \<open>The hydration codec: dehydrators\<close>

text \<open>
  Every dehydrator returns \<open>Inr\<close> of its result, or \<open>Inl TypeError\<close> when a conversion
  inside it throws.  \<open>dehydrateBoolean\<close> is typed for booleans; on any other value it
  follows the value's truthiness.
\<close>

definition dehydrateBoolean :: "jsval \<Rightarrow> string" where
  "dehydrateBoolean v = (if truthy v then ''y'' else ''n'')"

text \<open>\<open>.replace(/(?:,|;|\|)/g, '')\<close> removes every comma, semicolon and pipe.\<close>

definition stripDelimiters :: "string \<Rightarrow> string" where
  "stripDelimiters s = filter (\<lambda>c. c \<noteq> CHR '','' \<and> c \<noteq> CHR '';'' \<and> c \<noteq> CHR ''|'') s"

definition dehydrateValue :: "jsval \<Rightarrow> error + string" where
  "dehydrateValue v =
     (case v of
        JBool b \<Rightarrow> Inr (dehydrateBoolean v)
      | _ \<Rightarrow>
         (case toString v of
            Inl err \<Rightarrow> Inl err
          | Inr None \<Rightarrow> Inr ''?''
          | Inr (Some s) \<Rightarrow> Inr (if stripDelimiters s = [] then ''?'' else stripDelimiters s)))"

text \<open>
  \<open>value?.map?.(...).join(delimiter)\<close>: on an absent array the whole chain is
  short-circuited, and the function returns \<open>undefined\<close> (\<open>Inr None\<close>), not a string.
\<close>

definition dehydrateArray :: "jsval list option \<Rightarrow> string \<Rightarrow> error + string option" where
  "dehydrateArray v delimiter =
     (case v of
        None \<Rightarrow> Inr None
      | Some xs \<Rightarrow>
         (case mapThrowing dehydrateValue xs of
            Inl err \<Rightarrow> Inl err
          | Inr ss \<Rightarrow> Inr (Some (joinArray delimiter (map Some ss)))))"

datatype stat = HP | ATK | DEF | SPA | SPD | SPE

text \<open>
  A \<open>Showdown.StatsTable\<close>: every key is optional and holds a number, here an integer.
  A key that is missing and a key that holds \<open>undefined\<close> or \<open>null\<close> are both \<open>None\<close>.
\<close>

type_synonym StatsTable = "stat \<Rightarrow> int option"

text \<open>\<open>value?.hp\<close> and its siblings.\<close>

definition statOf :: "StatsTable option \<Rightarrow> stat \<Rightarrow> jsval" where
  "statOf v s =
     (case v of
        None \<Rightarrow> JUndefined
      | Some t \<Rightarrow> (case t s of None \<Rightarrow> JUndefined | Some n \<Rightarrow> JNum n))"

definition dehydrateStatsTable :: "StatsTable option \<Rightarrow> string \<Rightarrow> error + string" where
  "dehydrateStatsTable v delimiter =
     (case mapThrowing dehydrateValue
             [statOf v HP, statOf v ATK, statOf v DEF, statOf v SPA, statOf v SPD, statOf v SPE] of
        Inl err \<Rightarrow> Inl err
      | Inr ss \<Rightarrow> Inr (joinArray delimiter (map Some ss)))"

text \<open>\<open>Object.entries(value || {})\<close> and \<open>Object.keys(value || {})\<close>.\<close>

definition entries :: "(string \<times> jsval) list option \<Rightarrow> (string \<times> jsval) list" where
  "entries v = (case v of None \<Rightarrow> [] | Some kvs \<Rightarrow> kvs)"

definition dehydratePlayerSide ::
  "(string \<times> jsval) list option \<Rightarrow> string \<Rightarrow> error + string" where
  "dehydratePlayerSide v delimiter =
     (case mapThrowing
             (\<lambda>(k, x). case dehydrateValue x of
                          Inl err \<Rightarrow> Inl err
                        | Inr s \<Rightarrow> Inr (k @ ''='' @ s))
             (filter (\<lambda>(k, x). k \<noteq> [] \<and> k \<noteq> ''conditions'' \<and> truthy x) (entries v)) of
        Inl err \<Rightarrow> Inl err
      | Inr ss \<Rightarrow> Inr (joinArray delimiter (map Some ss)))"

text \<open>
  The keys are sorted by \<open>Array.prototype.sort\<close>'s default order, the lexicographic
  order of the code units; \<open>value[key]\<close> is read back from the object.  A slot that
  \<open>dehydrateArray\<close> leaves \<open>undefined\<close> would join as the empty string.
\<close>

definition dehydratePerSide ::
  "(string \<times> jsval) list option \<Rightarrow> string \<Rightarrow> string \<Rightarrow> error + string" where
  "dehydratePerSide v delimiter arrayDelimiter =
     (case mapThrowing
             (\<lambda>k. case map_of (entries v) k of
                     Some (JArr xs) \<Rightarrow> dehydrateArray (Some xs) arrayDelimiter
                   | Some x \<Rightarrow> map_sum id Some (dehydrateValue x)
                   | None \<Rightarrow> map_sum id Some (dehydrateValue JUndefined))
             (sort (map fst (entries v))) of
        Inl err \<Rightarrow> Inl err
      | Inr ss \<Rightarrow> Inr (joinArray delimiter ss))"


section \<open>Strings and absent values\<close>

text \<open>
  A string-valued property is a \<open>string option\<close>: \<open>None\<close> is \<open>undefined\<close> or \<open>null\<close>
  (every read of the source treats the two alike).  \<open>truthyS\<close> is the truthiness of such a
  value: absent values and the empty string are falsy.
\<close>

definition truthyS :: "string option \<Rightarrow> bool" where
  "truthyS v = (case v of None \<Rightarrow> False | Some s \<Rightarrow> s \<noteq> [])"

text \<open>\<open>a ?? b\<close>.\<close>

definition coalesce :: "'a option \<Rightarrow> 'a option \<Rightarrow> 'a option" where
  "coalesce a b = (case a of None \<Rightarrow> b | Some x \<Rightarrow> Some x)"

text \<open>\<open>a || b\<close> on strings.\<close>

definition orElse :: "string option \<Rightarrow> string option \<Rightarrow> string option" where
  "orElse a b = (if truthyS a then a else b)"

text \<open>\<open>x || null\<close> on a string, and on the \<open>false\<close> a failed \<open>&&\<close> leaves.\<close>

definition orNull :: "string option \<Rightarrow> string option" where
  "orNull a = (if truthyS a then a else None)"

text \<open>\<open>String.prototype.endsWith\<close>.\<close>

definition endsWith :: "string \<Rightarrow> string \<Rightarrow> bool" where
  "endsWith s suf = (length suf \<le> length s \<and> drop (length s - length suf) s = suf)"

text \<open>\<open>table?.[stat]\<close> on an optional stats table.\<close>

definition statAt :: "StatsTable option \<Rightarrow> stat \<Rightarrow> int option" where
  "statAt t s = (case t of None \<Rightarrow> None | Some m \<Rightarrow> m s)"

definition allStats :: "stat list" where
  "allStats = [HP, ATK, DEF, SPA, SPD, SPE]"

section \<open>The data model\<close>

text \<open>
  The fields of \<open>CalcdexPokemon\<close> that \<open>createSmogonPokemon\<close> and \<open>appliedPreset\<close> read,
  except those only the floating-point computation of \<open>curHP\<close> reads.  A boolean flag that
  is \<open>undefined\<close> reads as \<open>False\<close>.  An object whose property values are not read
  (\<open>volatiles\<close>, a move's overrides) is the list of its own keys.
\<close>

record CalcdexPokemon =
  calcdexId :: "string option"
  speciesForme :: "string option"
  transformedForme :: "string option"
  level :: "int option"
  gender :: "string option"
  terastallized :: bool
  teraType :: "string option"
  status :: "string option"
  dirtyStatus :: "string option"
  toxicCounter :: "int option"
  faintCounter :: "int option"
  dirtyFaintCounter :: "int option"
  moveOverrides :: "(string \<Rightarrow> string list option) option"
  useMax :: bool
  volatiles :: "string list option"
  ability :: "string option"
  dirtyAbility :: "string option"
  abilityToggleable :: bool
  abilityToggled :: bool
  item :: "string option"
  dirtyItem :: "string option"
  prevItem :: "string option"
  nature :: "string option"
  moves :: "string list option"
  ivs :: "StatsTable option"
  evs :: "StatsTable option"
  boostedStat :: "string option"
  boosts :: "StatsTable option"
  dirtyBoosts :: "StatsTable option"
  baseStats :: "StatsTable option"
  dirtyBaseStats :: "StatsTable option"
  transformedBaseStats :: "StatsTable option"
  types :: "string list option"
  dirtyTypes :: "string list option"

record CalcdexBattleField =
  gameType :: "string option"

text \<open>
  The fields of a preset that \<open>appliedPreset\<close> reads, under the names it destructures
  them to.
\<close>

record CalcdexPokemonPreset =
  source :: "string option"
  presetAbility :: "string option"
  presetItem :: "string option"
  presetNature :: "string option"
  presetMoves :: "string list option"
  presetIvs :: "StatsTable option"
  presetEvs :: "StatsTable option"

text \<open>
  The options record handed to the engine's \<open>Pokemon\<close> constructor, without \<open>curHP\<close>
  (floating-point arithmetic over the external helper \<open>calcPokemonHpPercentage\<close>, which is
  taken not to throw; no property below reads it).
  \<open>alliesFainted\<close> is \<open>None\<close> when the source leaves the boolean \<open>false\<close> there.
  \<open>overrides_types\<close> holds two slots, \<open>None\<close> for \<open>null\<close>.
\<close>

record SmogonPokemonOptions =
  opt_level :: "int option"
  opt_gender :: "string option"
  opt_teraType :: "string option"
  opt_status :: "string option"
  opt_toxicCounter :: "int option"
  alliesFainted :: "int option"
  isDynamaxed :: bool
  isSaltCure :: bool
  opt_ability :: "string option"
  abilityOn :: bool
  opt_item :: "string option"
  opt_nature :: "string option"
  opt_moves :: "string list option"
  opt_ivs :: StatsTable
  opt_evs :: StatsTable
  opt_boostedStat :: "string option"
  opt_boosts :: StatsTable
  overrides_baseStats :: StatsTable
  overrides_types :: "string option list"

text \<open>
  \<open>appliedPreset\<close> takes a generation number or a format name, and passes either on to
  \<open>detectLegacyGen\<close>.
\<close>

datatype format = GenNum int | FormatName string

section \<open>Helpers of the repository that are not among the source files\<close>

text \<open>
  The helpers and the constant that \<open>createSmogonPokemon\<close> and \<open>appliedPreset\<close> import
  are parameters of the model.  \<open>getGenDexForFormat\<close> yields the dex of a format (known
  here by its generation number; only its presence is read) or \<open>null\<close>;
  \<open>detectGenFromFormat\<close> yields the generation number or \<open>null\<close>; \<open>formatId\<close> may yield
  an absent value.
\<close>

record env =
  getGenDexForFormat :: "string \<Rightarrow> int option"
  detectGenFromFormat :: "string \<Rightarrow> int option"
  detectLegacyGen :: "format \<Rightarrow> bool"
  formatId :: "string option \<Rightarrow> string option"
  nonEmptyObject :: "string list option \<Rightarrow> bool"
  PokemonToggleAbilities :: "string list"

section \<open>The matchup adapter: createSmogonPokemon\<close>

text \<open>
  The callback of \<open>PokemonToggleAbilities.map\<close>: a Ruin ability is dropped (\<open>null\<close>)
  outside Doubles, any other ability is kept by its id.  \<open>formatId(a).endsWith\<close> throws
  when \<open>formatId(a)\<close> is absent.
\<close>

fun mapToggleAbilities :: "env \<Rightarrow> bool \<Rightarrow> string list \<Rightarrow> error + string option list" where
  "mapToggleAbilities e doubles [] = Inr []"
| "mapToggleAbilities e doubles (a # rest) =
     (case formatId e (Some a) of
        None \<Rightarrow> Inl TypeError
      | Some i \<Rightarrow>
         (case mapToggleAbilities e doubles rest of
            Inl err \<Rightarrow> Inl err
          | Inr ids \<Rightarrow>
              Inr ((if endsWith i ''ofruin'' \<and> \<not> doubles then None else formatId e (Some a)) # ids)))"

text \<open>
  \<open>!!abilityId && PokemonToggleAbilities.map(...).filter(Boolean).includes(abilityId)\<close>;
  the list is not built when \<open>abilityId\<close> is falsy.
\<close>

definition pseudoToggleAbility :: "env \<Rightarrow> bool \<Rightarrow> string option \<Rightarrow> error + bool" where
  "pseudoToggleAbility e doubles abilityId =
     (if \<not> truthyS abilityId then Inr False
      else
        (case mapToggleAbilities e doubles (PokemonToggleAbilities e) of
           Inl err \<Rightarrow> Inl err
         | Inr ids \<Rightarrow> Inr (abilityId \<in> set (filter truthyS ids))))"

text \<open>\<open>field?.gameType === 'Doubles'\<close>.\<close>

definition isDoubles :: "CalcdexBattleField option \<Rightarrow> bool" where
  "isDoubles field = (case field of None \<Rightarrow> False | Some f \<Rightarrow> gameType f = Some ''Doubles'')"

text \<open>\<open>(gen > 1 && (pokemon.dirtyItem ?? pokemon.item)) || null\<close>.\<close>

definition resolveItem :: "int \<Rightarrow> CalcdexPokemon \<Rightarrow> string option" where
  "resolveItem gen pokemon =
     orNull (if gen > 1 then coalesce (dirtyItem pokemon) (item pokemon) else None)"

definition resolveStatus :: "CalcdexPokemon \<Rightarrow> string option" where
  "resolveStatus pokemon =
     (if truthyS (dirtyStatus pokemon) \<and> dirtyStatus pokemon \<noteq> Some ''???''
      then (if dirtyStatus pokemon = Some ''ok'' then None else dirtyStatus pokemon)
      else (if status pokemon = Some ''???'' then None else status pokemon))"

text \<open>\<open>(!legacy && (pokemon.dirtyAbility ?? pokemon.ability)) || null\<close>.\<close>

definition resolveAbility :: "bool \<Rightarrow> CalcdexPokemon \<Rightarrow> string option" where
  "resolveAbility legacy pokemon =
     orNull (if \<not> legacy then coalesce (dirtyAbility pokemon) (ability pokemon) else None)"

text \<open>
  \<open>(!moveName || !nonEmptyObject(pokemon.moveOverrides?.[moveName]))
    && (pokemon.dirtyFaintCounter ?? (pokemon.faintCounter || 0))\<close>.
\<close>

definition resolveAlliesFainted :: "env \<Rightarrow> CalcdexPokemon \<Rightarrow> string option \<Rightarrow> int option" where
  "resolveAlliesFainted e pokemon moveName =
     (if \<not> truthyS moveName
         \<or> \<not> nonEmptyObject e
               (case moveOverrides pokemon of
                  None \<Rightarrow> None
                | Some ov \<Rightarrow> (case moveName of None \<Rightarrow> None | Some m \<Rightarrow> ov m))
      then (case dirtyFaintCounter pokemon of
              Some d \<Rightarrow> Some d
            | None \<Rightarrow> (case faintCounter pokemon of None \<Rightarrow> Some 0 | Some n \<Rightarrow> Some n))
      else None)"

text \<open>The \<open>ivs\<close> and \<open>evs\<close> of the options: \<open>table?.stat ?? default\<close> on each of the six keys.\<close>

definition withDefault :: "StatsTable option \<Rightarrow> int \<Rightarrow> StatsTable" where
  "withDefault t d = (\<lambda>s. Some (case statAt t s of None \<Rightarrow> d | Some v \<Rightarrow> v))"

text \<open>The \<open>boosts\<close> of the options: five keys, no HP.\<close>

definition resolveBoosts :: "CalcdexPokemon \<Rightarrow> StatsTable" where
  "resolveBoosts pokemon =
     (\<lambda>s. if s = HP then None
          else Some (case coalesce (statAt (dirtyBoosts pokemon) s) (statAt (boosts pokemon) s) of
                       None \<Rightarrow> 0
                     | Some v \<Rightarrow> v))"

text \<open>
  The \<open>overrides.baseStats\<close> of the options: \<open>baseStats\<close> spread, then the entries of
  \<open>dirtyBaseStats\<close> that are non-negative numbers.
\<close>

definition resolveBaseStats :: "CalcdexPokemon \<Rightarrow> StatsTable" where
  "resolveBaseStats pokemon =
     (\<lambda>s. case statAt (dirtyBaseStats pokemon) s of
            None \<Rightarrow> statAt (baseStats pokemon) s
          | Some v \<Rightarrow> (if v < 0 then statAt (baseStats pokemon) s else Some v))"

text \<open>
  The \<open>overrides.types\<close> of the options.  Spreading an absent list throws.
\<close>

definition resolveTypes :: "CalcdexPokemon \<Rightarrow> error + string option list" where
  "resolveTypes pokemon =
     (case (if (case dirtyTypes pokemon of None \<Rightarrow> False | Some ts \<Rightarrow> ts \<noteq> [])
            then dirtyTypes pokemon else types pokemon) of
        None \<Rightarrow> Inl TypeError
      | Some ts \<Rightarrow> Inr (take 2 (map Some ts @ [None, None])))"

text \<open>
  The object literal \<open>options\<close>.  \<open>'saltcure' in pokemon.volatiles\<close> throws when
  \<open>volatiles\<close> is absent.
\<close>

definition initialOptions ::
  "env \<Rightarrow> int \<Rightarrow> bool \<Rightarrow> CalcdexPokemon \<Rightarrow> string option \<Rightarrow> bool \<Rightarrow> error + SmogonPokemonOptions" where
  "initialOptions e gen legacy pokemon moveName pseudoToggle =
     (let defaultIv = (if legacy then 30 else 31);
          defaultEv = (if legacy then 252 else 0);
          abil = resolveAbility legacy pokemon;
          pseudoToggled = (pseudoToggle \<and> abilityToggleable pokemon \<and> abilityToggled pokemon)
      in case volatiles pokemon of
           None \<Rightarrow> Inl TypeError
         | Some vs \<Rightarrow>
            (case resolveTypes pokemon of
               Inl err \<Rightarrow> Inl err
             | Inr tys \<Rightarrow>
                Inr \<lparr> opt_level = level pokemon,
                      opt_gender = gender pokemon,
                      opt_teraType =
                        orNull (if terastallized pokemon then teraType pokemon else None),
                      opt_status = resolveStatus pokemon,
                      opt_toxicCounter = toxicCounter pokemon,
                      alliesFainted = resolveAlliesFainted e pokemon moveName,
                      isDynamaxed = useMax pokemon,
                      isSaltCure = (''saltcure'' \<in> set vs),
                      opt_ability =
                        (if pseudoToggle \<and> \<not> pseudoToggled then Some ''Pressure'' else abil),
                      abilityOn = pseudoToggled,
                      opt_item = resolveItem gen pokemon,
                      opt_nature = (if legacy then None else nature pokemon),
                      opt_moves = moves pokemon,
                      opt_ivs = withDefault (ivs pokemon) defaultIv,
                      opt_evs = withDefault (evs pokemon) defaultEv,
                      opt_boostedStat = boostedStat pokemon,
                      opt_boosts = resolveBoosts pokemon,
                      overrides_baseStats = resolveBaseStats pokemon,
                      overrides_types = tys \<rparr>))"

text \<open>\<open>if (legacy) options.ivs.spd = options.ivs.spa\<close>.\<close>

definition legacySpdIv :: "bool \<Rightarrow> SmogonPokemonOptions \<Rightarrow> SmogonPokemonOptions" where
  "legacySpdIv legacy opts =
     (if legacy then opts\<lparr>opt_ivs := (opt_ivs opts)(SPD := opt_ivs opts SPA)\<rparr> else opts)"

text \<open>The \<open>gen === 1\<close> block: EV, boost and base stat of SPD follow SPA.\<close>

definition gen1Special :: "int \<Rightarrow> SmogonPokemonOptions \<Rightarrow> SmogonPokemonOptions" where
  "gen1Special gen opts =
     (if gen = 1
      then opts\<lparr> opt_evs := (opt_evs opts)(SPD := opt_evs opts SPA),
                opt_boosts := (opt_boosts opts)(SPD := opt_boosts opts SPA),
                overrides_baseStats :=
                  (if overrides_baseStats opts SPD \<noteq> overrides_baseStats opts SPA
                   then (overrides_baseStats opts)(SPD := overrides_baseStats opts SPA)
                   else overrides_baseStats opts) \<rparr>
      else opts)"

text \<open>\<open>['protean', 'libero'].includes(abilityId) && !pokemon.abilityToggled\<close>.\<close>

definition proteanLibero ::
  "string option \<Rightarrow> CalcdexPokemon \<Rightarrow> SmogonPokemonOptions \<Rightarrow> SmogonPokemonOptions" where
  "proteanLibero abilityId pokemon opts =
     (if abilityId \<in> {Some ''protean'', Some ''libero''} \<and> \<not> abilityToggled pokemon
      then opts\<lparr>opt_ability := Some ''Pressure''\<rparr> else opts)"

text \<open>\<open>['intrepidsword', 'download'].includes(abilityId)\<close>.\<close>

definition intrepidDownload :: "string option \<Rightarrow> SmogonPokemonOptions \<Rightarrow> SmogonPokemonOptions" where
  "intrepidDownload abilityId opts =
     (if abilityId \<in> {Some ''intrepidsword'', Some ''download''}
      then opts\<lparr>opt_ability := Some ''Pressure''\<rparr> else opts)"

text \<open>\<open>id?.endsWith('ofruin')\<close>.\<close>

definition isRuinId :: "string option \<Rightarrow> bool" where
  "isRuinId i = (case i of None \<Rightarrow> False | Some s \<Rightarrow> endsWith s ''ofruin'')"

text \<open>The Ruin block: the same Ruin ability on both sides cancels out.\<close>

definition ruinCancel ::
  "env \<Rightarrow> bool \<Rightarrow> string option \<Rightarrow> CalcdexPokemon option \<Rightarrow> SmogonPokemonOptions
     \<Rightarrow> SmogonPokemonOptions" where
  "ruinCancel e legacy abilityId opponentPokemon opts =
     (case opponentPokemon of
        None \<Rightarrow> opts
      | Some opp \<Rightarrow>
         (if \<not> legacy \<and> isRuinId abilityId \<and> truthyS (speciesForme opp)
          then (let opponentAbilityId = formatId e (orElse (dirtyAbility opp) (ability opp))
                in if isRuinId opponentAbilityId \<and> opponentAbilityId = abilityId
                   then opts\<lparr>opt_ability := Some ''Pressure''\<rparr> else opts)
          else opts))"

text \<open>
  The transformation block: the transformed forme's base stats, with the HP of the
  combatant's own \<open>baseStats\<close>.  \<open>baseStats.hp\<close> throws when \<open>baseStats\<close> is absent.
\<close>

definition transformBaseStats ::
  "CalcdexPokemon \<Rightarrow> SmogonPokemonOptions \<Rightarrow> error + SmogonPokemonOptions" where
  "transformBaseStats pokemon opts =
     (if truthyS (transformedForme pokemon)
      then (case baseStats pokemon of
              None \<Rightarrow> Inl TypeError
            | Some bs \<Rightarrow>
                Inr (opts\<lparr>overrides_baseStats :=
                            (\<lambda>s. statAt (transformedBaseStats pokemon) s)(HP := bs HP)\<rparr>))
      else Inr opts)"

text \<open>The Power Trick block: ATK and DEF of the base stats change places.\<close>

definition powerTrick ::
  "env \<Rightarrow> CalcdexPokemon \<Rightarrow> SmogonPokemonOptions \<Rightarrow> SmogonPokemonOptions" where
  "powerTrick e pokemon opts =
     (if nonEmptyObject e (volatiles pokemon)
         \<and> (case volatiles pokemon of None \<Rightarrow> False | Some vs \<Rightarrow> ''powertrick'' \<in> set vs)
      then opts\<lparr>overrides_baseStats :=
                  (overrides_baseStats opts)
                    (ATK := overrides_baseStats opts DEF, DEF := overrides_baseStats opts ATK)\<rparr>
      else opts)"

text \<open>
  The function.  \<open>Inr None\<close> is the \<open>null\<close> it returns; \<open>Inr (Some opts)\<close> is the call
  \<open>new SmogonPokemon(dex, pokemon.speciesForme, opts)\<close> of the engine's constructor, which
  is outside the repository; \<open>Inl TypeError\<close> is a \<open>TypeError\<close> thrown before that call.
  What the function does to the constructed object afterwards (it fills in a missing
  \<open>nfe\<close> flag of the species) does not touch the options.  In \<open>gen < 1\<close> a \<open>null\<close>
  generation counts as \<open>0\<close>.
\<close>

definition createSmogonPokemon ::
  "env \<Rightarrow> string \<Rightarrow> CalcdexPokemon option \<Rightarrow> string option \<Rightarrow> CalcdexPokemon option
     \<Rightarrow> CalcdexBattleField option \<Rightarrow> error + SmogonPokemonOptions option" where
  "createSmogonPokemon e fmt pokemonArg moveName opponentPokemon field =
     (let dex = getGenDexForFormat e fmt;
          gen = (case detectGenFromFormat e fmt of None \<Rightarrow> 0 | Some g \<Rightarrow> g)
      in case pokemonArg of
           None \<Rightarrow> Inr None
         | Some pokemon \<Rightarrow>
            (if dex = None \<or> gen < 1 \<or> \<not> truthyS (calcdexId pokemon)
                \<or> \<not> truthyS (speciesForme pokemon)
             then Inr None
             else
               (let legacy = detectLegacyGen e (GenNum gen) in
                if \<not> truthyS (speciesForme pokemon) then Inr None
                else
                  (let abilityId = formatId e (resolveAbility legacy pokemon);
                       doubles = isDoubles field
                   in case pseudoToggleAbility e doubles abilityId of
                        Inl err \<Rightarrow> Inl err
                      | Inr pseudoToggle \<Rightarrow>
                         (case initialOptions e gen legacy pokemon moveName pseudoToggle of
                            Inl err \<Rightarrow> Inl err
                          | Inr opts0 \<Rightarrow>
                             (case transformBaseStats pokemon
                                     (ruinCancel e legacy abilityId opponentPokemon
                                        (intrepidDownload abilityId
                                           (proteanLibero abilityId pokemon
                                              (gen1Special gen (legacySpdIv legacy opts0))))) of
                                Inl err \<Rightarrow> Inl err
                              | Inr opts \<Rightarrow> Inr (Some (powerTrick e pokemon opts))))))))"

section \<open>The preset matcher: appliedPreset\<close>

text \<open>\<open>!format\<close>: the empty string and the number \<open>0\<close> are falsy.\<close>

definition truthyFormat :: "format \<Rightarrow> bool" where
  "truthyFormat f = (case f of GenNum n \<Rightarrow> n \<noteq> 0 | FormatName s \<Rightarrow> s \<noteq> [])"

text \<open>\<open>!!a && !!b && a === b\<close> on strings.\<close>

definition sameString :: "string option \<Rightarrow> string option \<Rightarrow> bool" where
  "sameString a b = (truthyS a \<and> truthyS b \<and> a = b)"

text \<open>
  \<open>!!pokemonMoves?.length && !!presetMoves?.length
    && presetMoves.every((move) => pokemonMoves.includes(move))\<close>.
\<close>

definition movesMatch :: "string list option \<Rightarrow> string list option \<Rightarrow> bool" where
  "movesMatch pokemonMoves presetMovesArg =
     (case pokemonMoves of
        None \<Rightarrow> False
      | Some pm \<Rightarrow>
         (case presetMovesArg of
            None \<Rightarrow> False
          | Some qm \<Rightarrow> pm \<noteq> [] \<and> qm \<noteq> [] \<and> list_all (\<lambda>m. m \<in> set pm) qm))"

text \<open>
  \<open>Object.entries(pokemonIvs || {}).every(...)\<close>: every entry of the combatant's IVs
  is either skipped (\<open>hp\<close> and \<open>spd\<close> in a legacy generation) or equals
  \<open>presetIvs?.[stat] ?? defaultIv\<close>.  The entries are the keys that hold a number; a
  table with a key that holds \<open>undefined\<close> is outside the model.
\<close>

definition ivsMatch :: "bool \<Rightarrow> StatsTable option \<Rightarrow> StatsTable option \<Rightarrow> bool" where
  "ivsMatch legacy pokemonIvs presetIvsArg =
     list_all
       (\<lambda>s. case statAt pokemonIvs s of
              None \<Rightarrow> True
            | Some v \<Rightarrow>
                (legacy \<and> s \<in> {HP, SPD})
                \<or> (case statAt presetIvsArg s of
                      None \<Rightarrow> (if legacy then 30 else 31)
                    | Some w \<Rightarrow> w) = v)
       allStats"

text \<open>
  \<open>Object.entries(pokemonEvs || {}).every(([stat, value]) =>
    (presetEvs?.[stat] || 0) === value)\<close>.
\<close>

definition evsMatch :: "StatsTable option \<Rightarrow> StatsTable option \<Rightarrow> bool" where
  "evsMatch pokemonEvs presetEvsArg =
     list_all
       (\<lambda>s. case statAt pokemonEvs s of
              None \<Rightarrow> True
            | Some v \<Rightarrow> (case statAt presetEvsArg s of None \<Rightarrow> 0 | Some w \<Rightarrow> w) = v)
       allStats"

definition appliedPreset ::
  "env \<Rightarrow> format \<Rightarrow> CalcdexPokemon option \<Rightarrow> CalcdexPokemonPreset option \<Rightarrow> bool" where
  "appliedPreset e fmt pokemonArg presetArg =
     (case pokemonArg of
        None \<Rightarrow> False
      | Some pokemon \<Rightarrow>
         (case presetArg of
            None \<Rightarrow> False
          | Some preset \<Rightarrow>
             (if \<not> truthyFormat fmt \<or> \<not> truthyS (speciesForme pokemon)
                 \<or> \<not> truthyS (source preset)
              then False
              else
                (let gen = (case fmt of
                              FormatName s \<Rightarrow> detectGenFromFormat e s
                            | GenNum n \<Rightarrow> Some n)
                 in case gen of
                      None \<Rightarrow> False
                    | Some g \<Rightarrow>
                       (if g = 0 then False
                        else
                          (let legacy = detectLegacyGen e fmt;
                               pokemonAbility = orElse (dirtyAbility pokemon) (ability pokemon);
                               pokemonItem =
                                 coalesce (dirtyItem pokemon)
                                   (orElse (prevItem pokemon) (item pokemon))
                           in (legacy \<or> sameString (nature pokemon) (presetNature preset))
                              \<and> (legacy \<or> sameString pokemonAbility (presetAbility preset))
                              \<and> (g < 2 \<or> sameString pokemonItem (presetItem preset))
                              \<and> movesMatch (moves pokemon) (presetMoves preset)
                              \<and> ivsMatch legacy (ivs pokemon) (presetIvs preset)
                              \<and> (legacy \<or> evsMatch (evs pokemon) (presetEvs preset))))))))"

section \<open>An instance of the helpers, and example data\<close>

text \<open>
  The examples below run the functions on one instance of the missing helpers: a table of
  four format names, generations 1 and 2 as the legacy ones, a \<open>formatId\<close> that
  lower-cases and keeps letters and digits only, a \<open>nonEmptyObject\<close> that asks for an
  own key, and a short list of toggle abilities.
\<close>

definition exampleGen :: "string \<Rightarrow> int option" where
  "exampleGen =
     map_of [(''gen1ou'', 1), (''gen2ou'', 2), (''gen9ou'', 9), (''gen9doublesou'', 9)]"

definition lowerCase :: "char \<Rightarrow> char" where
  "lowerCase c =
     (case map_of (zip ''ABCDEFGHIJKLMNOPQRSTUVWXYZ'' ''abcdefghijklmnopqrstuvwxyz'') c of
        None \<Rightarrow> c
      | Some l \<Rightarrow> l)"

definition exampleFormatId :: "string option \<Rightarrow> string option" where
  "exampleFormatId v =
     map_option
       (\<lambda>s. filter (\<lambda>c. c \<in> set ''abcdefghijklmnopqrstuvwxyz0123456789'') (map lowerCase s)) v"

definition exampleLegacy :: "format \<Rightarrow> bool" where
  "exampleLegacy f =
     (case (case f of GenNum n \<Rightarrow> Some n | FormatName s \<Rightarrow> exampleGen s) of
        None \<Rightarrow> False
      | Some n \<Rightarrow> n \<noteq> 0 \<and> n \<le> 2)"

definition exampleEnv :: env where
  "exampleEnv =
     \<lparr> getGenDexForFormat = exampleGen,
       detectGenFromFormat = exampleGen,
       detectLegacyGen = exampleLegacy,
       formatId = exampleFormatId,
       nonEmptyObject = (\<lambda>obj. case obj of None \<Rightarrow> False | Some ks \<Rightarrow> ks \<noteq> []),
       PokemonToggleAbilities = [''Multiscale'', ''Sword of Ruin'', ''Beads of Ruin''] \<rparr>"

definition examplePokemon :: CalcdexPokemon where
  "examplePokemon =
     \<lparr> calcdexId = Some ''p1-greninja'',
       speciesForme = Some ''Greninja'',
       transformedForme = None,
       level = Some 100,
       gender = Some ''M'',
       terastallized = False,
       teraType = None,
       status = Some ''brn'',
       dirtyStatus = None,
       toxicCounter = None,
       faintCounter = Some 1,
       dirtyFaintCounter = None,
       moveOverrides = None,
       useMax = False,
       volatiles = Some [],
       ability = Some ''Protean'',
       dirtyAbility = None,
       abilityToggleable = False,
       abilityToggled = False,
       item = Some ''Life Orb'',
       dirtyItem = None,
       prevItem = None,
       nature = Some ''Timid'',
       moves = Some [''Surf'', ''Dark Pulse'', ''Ice Beam'', ''U-turn''],
       ivs = Some [HP \<mapsto> 31, ATK \<mapsto> 31, DEF \<mapsto> 31, SPA \<mapsto> 31, SPD \<mapsto> 31, SPE \<mapsto> 31],
       evs = Some [HP \<mapsto> 0, ATK \<mapsto> 0, DEF \<mapsto> 0, SPA \<mapsto> 252, SPD \<mapsto> 4, SPE \<mapsto> 252],
       boostedStat = None,
       boosts = Some [ATK \<mapsto> 0, DEF \<mapsto> 0, SPA \<mapsto> 1, SPD \<mapsto> 0, SPE \<mapsto> 0],
       dirtyBoosts = None,
       baseStats = Some [HP \<mapsto> 72, ATK \<mapsto> 95, DEF \<mapsto> 67, SPA \<mapsto> 103, SPD \<mapsto> 71, SPE \<mapsto> 122],
       dirtyBaseStats = None,
       transformedBaseStats = None,
       types = Some [''Water'', ''Dark''],
       dirtyTypes = None \<rparr>"

definition examplePreset :: CalcdexPokemonPreset where
  "examplePreset =
     \<lparr> source = Some ''smogon'',
       presetAbility = Some ''Protean'',
       presetItem = Some ''Life Orb'',
       presetNature = Some ''Timid'',
       presetMoves = Some [''Ice Beam'', ''Surf''],
       presetIvs = None,
       presetEvs = Some [SPA \<mapsto> 252, SPD \<mapsto> 4, SPE \<mapsto> 252] \<rparr>"

section \<open>Reading a dehydrated string back\<close>

text \<open>
  \<open>String.prototype.split\<close> on a one-character separator, the way a decoder finds the
  slots of a dehydrated string.
\<close>

fun splitOn :: "char \<Rightarrow> string \<Rightarrow> string list" where
  "splitOn c [] = [[]]"
| "splitOn c (x # xs) =
     (if x = c then [] # splitOn c xs
      else (case splitOn c xs of [] \<Rightarrow> [[x]] | y # ys \<Rightarrow> (x # y) # ys))"

section \<open>The codec: the stats table\<close>

lemma digitChar_digit: "d < 10 \<Longrightarrow> digitChar d \<in> set ''0123456789''"
  unfolding digitChar_def by (rule nth_mem) simp

lemma showNat_digits: "set (showNat n) \<subseteq> set ''0123456789''"
proof (induction n rule: showNat.induct)
  case (1 n)
  show ?case
  proof (cases "n < 10")
    case True
    then show ?thesis
      using digitChar_digit [of n] by (subst showNat.simps) simp
  next
    case False
    have "digitChar (n mod 10) \<in> set ''0123456789''"
      by (rule digitChar_digit) simp
    with False "1.IH" show ?thesis
      by (subst showNat.simps) simp
  qed
qed

lemma splitOn_append: "c \<notin> set a \<Longrightarrow> splitOn c (a @ c # rest) = a # splitOn c rest"
proof (induction a)
  case Nil
  show ?case by simp
next
  case (Cons x a)
  then have "x \<noteq> c" and "c \<notin> set a" by auto
  with Cons.IH show ?case by simp
qed
lemma splitOn_single: "c \<notin> set a \<Longrightarrow> splitOn c a = [a]"
proof (induction a)
  case Nil
  show ?case by simp
next
  case (Cons x a)
  then have "x \<noteq> c" and "c \<notin> set a" by auto
  with Cons.IH show ?case by simp
qed
lemma showInt_chars: "set (showInt i) \<subseteq> set ''-0123456789''"
proof -
  have sup: "set ''0123456789'' \<subseteq> set ''-0123456789''"
    by (rule set_subset_Cons)
  show ?thesis
  proof (cases "i < 0")
    case True
    then have eq: "showInt i = CHR ''-'' # showNat (nat (- i))"
      by (simp add: showInt_def)
    have "set (showNat (nat (- i))) \<subseteq> set ''-0123456789''"
      using showNat_digits sup by (rule subset_trans)
    then show ?thesis
      unfolding eq by simp
  next
    case False
    then have eq: "showInt i = showNat (nat i)"
      by (simp add: showInt_def)
    show ?thesis
      unfolding eq using showNat_digits sup by (rule subset_trans)
  qed
qed
lemma slot_no_slash:
  "CHR ''/'' \<notin> set (case statAt v s of None \<Rightarrow> ''?'' | Some n \<Rightarrow> showInt n)"
proof (cases "statAt v s")
  case None
  then show ?thesis by simp
next
  case (Some n)
  have "CHR ''/'' \<notin> set ''-0123456789''" by simp
  with showInt_chars [of n] have "CHR ''/'' \<notin> set (showInt n)" by blast
  with Some show ?thesis by simp
qed

lemma stripDelimiters_showInt: "stripDelimiters (showInt i) = showInt i"
proof -
  have "\<forall>c \<in> set (showInt i). c \<noteq> CHR '','' \<and> c \<noteq> CHR '';'' \<and> c \<noteq> CHR ''|''"
    using showInt_chars [of i] by auto
  then show ?thesis
    unfolding stripDelimiters_def by (simp add: filter_id_conv)
qed

lemma showNat_nonempty: "showNat n \<noteq> []"
  by (subst showNat.simps) simp

lemma showInt_nonempty: "showInt i \<noteq> []"
  by (simp add: showInt_def showNat_nonempty)

lemma dehydrateValue_JNum: "dehydrateValue (JNum i) = Inr (showInt i)"
  by (simp add: dehydrateValue_def stripDelimiters_showInt showInt_nonempty)

lemma dehydrateValue_statOf:
  "dehydrateValue (statOf v s) =
     Inr (case statAt v s of None \<Rightarrow> ''?'' | Some n \<Rightarrow> showInt n)"
proof (cases "statAt v s")
  case None
  then have "statOf v s = JUndefined"
    by (auto simp: statOf_def statAt_def split: option.splits)
  with None show ?thesis by (simp add: dehydrateValue_def)
next
  case (Some n)
  then have "statOf v s = JNum n"
    by (auto simp: statOf_def statAt_def split: option.splits)
  with Some show ?thesis by (simp add: dehydrateValue_JNum)
qed

lemma splitOn_six:
  assumes "c \<notin> set a1" "c \<notin> set a2" "c \<notin> set a3" "c \<notin> set a4" "c \<notin> set a5" "c \<notin> set a6"
  shows "splitOn c (a1 @ c # a2 @ c # a3 @ c # a4 @ c # a5 @ c # a6) = [a1, a2, a3, a4, a5, a6]"
  using assms by (simp add: splitOn_append splitOn_single)

text \<open>
  C9.  For every stats table, present or absent, \<open>dehydrateStatsTable\<close> with the default
  delimiter \<open>/\<close> does not throw and returns a string \<open>r\<close>: the six slots HP, Attack,
  Defense, Special Attack, Special Defense, Speed in this order with a \<open>/\<close> between
  neighbours.  Splitting \<open>r\<close> at \<open>/\<close> gives back exactly these six slots; a slot is the
  placeholder \<open>?\<close> when the stat is absent and the decimal number otherwise.  The table
  of the example dehydrates to \<open>31/0/31/31/31/31\<close>.
\<close>

theorem dehydrateStatsTable_six_slots:
  "(\<exists>r. dehydrateStatsTable v ''/'' = Inr r
        \<and> r = (case statAt v HP of None \<Rightarrow> ''?'' | Some n \<Rightarrow> showInt n) @ ''/'' @
               (case statAt v ATK of None \<Rightarrow> ''?'' | Some n \<Rightarrow> showInt n) @ ''/'' @
               (case statAt v DEF of None \<Rightarrow> ''?'' | Some n \<Rightarrow> showInt n) @ ''/'' @
               (case statAt v SPA of None \<Rightarrow> ''?'' | Some n \<Rightarrow> showInt n) @ ''/'' @
               (case statAt v SPD of None \<Rightarrow> ''?'' | Some n \<Rightarrow> showInt n) @ ''/'' @
               (case statAt v SPE of None \<Rightarrow> ''?'' | Some n \<Rightarrow> showInt n)
        \<and> splitOn CHR ''/'' r =
            map (\<lambda>s. case statAt v s of None \<Rightarrow> ''?'' | Some n \<Rightarrow> showInt n)
              [HP, ATK, DEF, SPA, SPD, SPE])
   \<and> dehydrateStatsTable
         (Some [HP \<mapsto> 31, ATK \<mapsto> 0, DEF \<mapsto> 31, SPA \<mapsto> 31, SPD \<mapsto> 31, SPE \<mapsto> 31]) ''/''
       = Inr ''31/0/31/31/31/31''"
proof (intro conjI)
  let ?r = "(case statAt v HP of None \<Rightarrow> ''?'' | Some n \<Rightarrow> showInt n) @ ''/'' @
     (case statAt v ATK of None \<Rightarrow> ''?'' | Some n \<Rightarrow> showInt n) @ ''/'' @
     (case statAt v DEF of None \<Rightarrow> ''?'' | Some n \<Rightarrow> showInt n) @ ''/'' @
     (case statAt v SPA of None \<Rightarrow> ''?'' | Some n \<Rightarrow> showInt n) @ ''/'' @
     (case statAt v SPD of None \<Rightarrow> ''?'' | Some n \<Rightarrow> showInt n) @ ''/'' @
     (case statAt v SPE of None \<Rightarrow> ''?'' | Some n \<Rightarrow> showInt n)"
  have eq: "dehydrateStatsTable v ''/'' = Inr ?r"
    by (simp only: dehydrateStatsTable_def mapThrowing.simps dehydrateValue_statOf sum.case
        list.map joinArray.simps option.case)
  have sp: "splitOn CHR ''/'' ?r =
       map (\<lambda>s. case statAt v s of None \<Rightarrow> ''?'' | Some n \<Rightarrow> showInt n)
         [HP, ATK, DEF, SPA, SPD, SPE]"
    using splitOn_six [OF slot_no_slash [of v HP] slot_no_slash [of v ATK]
        slot_no_slash [of v DEF] slot_no_slash [of v SPA] slot_no_slash [of v SPD]
        slot_no_slash [of v SPE]]
    by simp
  from eq sp show "\<exists>r. dehydrateStatsTable v ''/'' = Inr r \<and> r = ?r
        \<and> splitOn CHR ''/'' r =
            map (\<lambda>s. case statAt v s of None \<Rightarrow> ''?'' | Some n \<Rightarrow> showInt n)
              [HP, ATK, DEF, SPA, SPD, SPE]"
    by blast
  show "dehydrateStatsTable
         (Some [HP \<mapsto> 31, ATK \<mapsto> 0, DEF \<mapsto> 31, SPA \<mapsto> 31, SPD \<mapsto> 31, SPE \<mapsto> 31]) ''/''
       = Inr ''31/0/31/31/31/31''"
    by (simp add: dehydrateStatsTable_def statOf_def dehydrateValue_JNum showInt_def
        showNat.simps digitChar_def)
qed

theorem dehydrateStatsTable_six_slots_witness:
  "map_sum id (splitOn CHR ''/'') (dehydrateStatsTable (Some [HP \<mapsto> 252, SPE \<mapsto> 4]) ''/'') =
     Inr [''252'', ''?'', ''?'', ''?'', ''?'', ''4'']
   \<and> map_sum id (splitOn CHR ''/'') (dehydrateStatsTable None ''/'') =
     Inr [''?'', ''?'', ''?'', ''?'', ''?'', ''?'']"
proof -
  from dehydrateStatsTable_six_slots [of "Some [HP \<mapsto> 252, SPE \<mapsto> 4]"]
  have a: "map_sum id (splitOn CHR ''/'') (dehydrateStatsTable (Some [HP \<mapsto> 252, SPE \<mapsto> 4]) ''/'')
      = Inr (map (\<lambda>s. case statAt (Some [HP \<mapsto> 252, SPE \<mapsto> 4]) s of
                        None \<Rightarrow> ''?'' | Some n \<Rightarrow> showInt n)
               [HP, ATK, DEF, SPA, SPD, SPE])"
    by auto
  from dehydrateStatsTable_six_slots [of None]
  have b: "map_sum id (splitOn CHR ''/'') (dehydrateStatsTable None ''/'')
      = Inr (map (\<lambda>s. case statAt None s of None \<Rightarrow> ''?'' | Some n \<Rightarrow> showInt n)
               [HP, ATK, DEF, SPA, SPD, SPE])"
    by auto
  show ?thesis
    unfolding a b by (simp add: statAt_def showInt_def showNat.simps digitChar_def)
qed

section \<open>The codec: exceptions and absent input\<close>











section \<open>The matchup adapter: what a result holds\<close>

lemma createSmogonPokemon_SomeE:
  assumes "createSmogonPokemon e fmt (Some p) mv opp fld = Inr (Some opts)"
  obtains g pt opts0 opts1 where
    "detectGenFromFormat e fmt = Some g" and "1 \<le> g"
    and "getGenDexForFormat e fmt \<noteq> None"
    and "truthyS (calcdexId p)" and "truthyS (speciesForme p)"
    and "pseudoToggleAbility e (isDoubles fld)
           (formatId e (resolveAbility (detectLegacyGen e (GenNum g)) p)) = Inr pt"
    and "initialOptions e g (detectLegacyGen e (GenNum g)) p mv pt = Inr opts0"
    and "transformBaseStats p
           (ruinCancel e (detectLegacyGen e (GenNum g))
              (formatId e (resolveAbility (detectLegacyGen e (GenNum g)) p)) opp
              (intrepidDownload (formatId e (resolveAbility (detectLegacyGen e (GenNum g)) p))
                 (proteanLibero (formatId e (resolveAbility (detectLegacyGen e (GenNum g)) p)) p
                    (gen1Special g (legacySpdIv (detectLegacyGen e (GenNum g)) opts0))))) = Inr opts1"
    and "opts = powerTrick e p opts1"
proof (cases "detectGenFromFormat e fmt")
  case None
  with assms show ?thesis
    by (simp add: createSmogonPokemon_def Let_def)
next
  case (Some g)
  with assms have guard: "getGenDexForFormat e fmt \<noteq> None" "1 \<le> g"
    "truthyS (calcdexId p)" "truthyS (speciesForme p)"
    by (auto simp: createSmogonPokemon_def Let_def split: if_splits)
  with assms Some that show ?thesis
    by (simp add: createSmogonPokemon_def Let_def split: sum.splits)
qed

lemma initialOptions_fields:
  assumes "initialOptions e g legacy p mv pt = Inr opts0"
  shows "opt_status opts0 = resolveStatus p"
    and "opt_item opts0 = resolveItem g p"
    and "alliesFainted opts0 = resolveAlliesFainted e p mv"
    and "resolveTypes p = Inr (overrides_types opts0)"
    and "opt_ivs opts0 = withDefault (ivs p) (if legacy then 30 else 31)"
    and "opt_evs opts0 = withDefault (evs p) (if legacy then 252 else 0)"
    and "opt_boosts opts0 = resolveBoosts p"
    and "overrides_baseStats opts0 = resolveBaseStats p"
    and "opt_ability opts0 =
           (if pt \<and> \<not> (abilityToggleable p \<and> abilityToggled p) then Some ''Pressure''
            else resolveAbility legacy p)"
    and "volatiles p \<noteq> None"
  using assms
  by (auto simp: initialOptions_def Let_def split: option.splits sum.splits)

lemma transformBaseStats_Inr:
  assumes "transformBaseStats p opts = Inr opts1"
  shows "opts1 =
           (if truthyS (transformedForme p)
            then opts\<lparr>overrides_baseStats :=
                        (\<lambda>s. statAt (transformedBaseStats p) s)
                          (HP := statAt (baseStats p) HP)\<rparr>
            else opts)"
  using assms
  by (auto simp: transformBaseStats_def statAt_def split: if_splits option.splits)


lemma steps_status [simp]:
  "opt_status (legacySpdIv l x) = opt_status x"
  "opt_status (gen1Special g x) = opt_status x"
  "opt_status (proteanLibero i p x) = opt_status x"
  "opt_status (intrepidDownload i x) = opt_status x"
  "opt_status (ruinCancel e l i q x) = opt_status x"
  "opt_status (powerTrick e p x) = opt_status x"
  by (simp_all add: legacySpdIv_def gen1Special_def proteanLibero_def intrepidDownload_def
      ruinCancel_def powerTrick_def Let_def split: option.splits)

lemma steps_item [simp]:
  "opt_item (legacySpdIv l x) = opt_item x"
  "opt_item (gen1Special g x) = opt_item x"
  "opt_item (proteanLibero i p x) = opt_item x"
  "opt_item (intrepidDownload i x) = opt_item x"
  "opt_item (ruinCancel e l i q x) = opt_item x"
  "opt_item (powerTrick e p x) = opt_item x"
  by (simp_all add: legacySpdIv_def gen1Special_def proteanLibero_def intrepidDownload_def
      ruinCancel_def powerTrick_def Let_def split: option.splits)

lemma steps_allies [simp]:
  "alliesFainted (legacySpdIv l x) = alliesFainted x"
  "alliesFainted (gen1Special g x) = alliesFainted x"
  "alliesFainted (proteanLibero i p x) = alliesFainted x"
  "alliesFainted (intrepidDownload i x) = alliesFainted x"
  "alliesFainted (ruinCancel e l i q x) = alliesFainted x"
  "alliesFainted (powerTrick e p x) = alliesFainted x"
  by (simp_all add: legacySpdIv_def gen1Special_def proteanLibero_def intrepidDownload_def
      ruinCancel_def powerTrick_def Let_def split: option.splits)

lemma steps_types [simp]:
  "overrides_types (legacySpdIv l x) = overrides_types x"
  "overrides_types (gen1Special g x) = overrides_types x"
  "overrides_types (proteanLibero i p x) = overrides_types x"
  "overrides_types (intrepidDownload i x) = overrides_types x"
  "overrides_types (ruinCancel e l i q x) = overrides_types x"
  "overrides_types (powerTrick e p x) = overrides_types x"
  by (simp_all add: legacySpdIv_def gen1Special_def proteanLibero_def intrepidDownload_def
      ruinCancel_def powerTrick_def Let_def split: option.splits)


lemma steps_ivs [simp]:
  "opt_ivs (gen1Special g x) = opt_ivs x"
  "opt_ivs (proteanLibero i p x) = opt_ivs x"
  "opt_ivs (intrepidDownload i x) = opt_ivs x"
  "opt_ivs (ruinCancel e l i q x) = opt_ivs x"
  "opt_ivs (powerTrick e p x) = opt_ivs x"
  by (simp_all add: legacySpdIv_def gen1Special_def proteanLibero_def intrepidDownload_def
      ruinCancel_def powerTrick_def Let_def split: option.splits)

lemma steps_evs [simp]:
  "opt_evs (legacySpdIv l x) = opt_evs x"
  "opt_evs (proteanLibero i p x) = opt_evs x"
  "opt_evs (intrepidDownload i x) = opt_evs x"
  "opt_evs (ruinCancel e l i q x) = opt_evs x"
  "opt_evs (powerTrick e p x) = opt_evs x"
  by (simp_all add: legacySpdIv_def gen1Special_def proteanLibero_def intrepidDownload_def
      ruinCancel_def powerTrick_def Let_def split: option.splits)

lemma steps_boosts [simp]:
  "opt_boosts (legacySpdIv l x) = opt_boosts x"
  "opt_boosts (proteanLibero i p x) = opt_boosts x"
  "opt_boosts (intrepidDownload i x) = opt_boosts x"
  "opt_boosts (ruinCancel e l i q x) = opt_boosts x"
  "opt_boosts (powerTrick e p x) = opt_boosts x"
  by (simp_all add: legacySpdIv_def gen1Special_def proteanLibero_def intrepidDownload_def
      ruinCancel_def powerTrick_def Let_def split: option.splits)

lemma steps_baseStats [simp]:
  "overrides_baseStats (legacySpdIv l x) = overrides_baseStats x"
  "overrides_baseStats (proteanLibero i p x) = overrides_baseStats x"
  "overrides_baseStats (intrepidDownload i x) = overrides_baseStats x"
  "overrides_baseStats (ruinCancel e l i q x) = overrides_baseStats x"
  by (simp_all add: legacySpdIv_def gen1Special_def proteanLibero_def intrepidDownload_def
      ruinCancel_def powerTrick_def Let_def split: option.splits)

lemma steps_ability [simp]:
  "opt_ability (legacySpdIv l x) = opt_ability x"
  "opt_ability (gen1Special g x) = opt_ability x"
  "opt_ability (powerTrick e p x) = opt_ability x"
  by (simp_all add: legacySpdIv_def gen1Special_def proteanLibero_def intrepidDownload_def
      ruinCancel_def powerTrick_def Let_def split: option.splits)

lemma legacySpdIv_ivs:
  "opt_ivs (legacySpdIv l x) = (if l then (opt_ivs x)(SPD := opt_ivs x SPA) else opt_ivs x)"
  by (simp add: legacySpdIv_def)

lemma gen1Special_fields:
  "opt_evs (gen1Special g x) = (if g = 1 then (opt_evs x)(SPD := opt_evs x SPA) else opt_evs x)"
  "opt_boosts (gen1Special g x) =
     (if g = 1 then (opt_boosts x)(SPD := opt_boosts x SPA) else opt_boosts x)"
  "overrides_baseStats (gen1Special g x) =
     (if g = 1 then (overrides_baseStats x)(SPD := overrides_baseStats x SPA)
      else overrides_baseStats x)"
  by (auto simp: gen1Special_def)

lemma powerTrick_baseStats:
  "overrides_baseStats (powerTrick e p x) =
     (if nonEmptyObject e (volatiles p)
         \<and> (case volatiles p of None \<Rightarrow> False | Some vs \<Rightarrow> ''powertrick'' \<in> set vs)
      then (overrides_baseStats x)
             (ATK := overrides_baseStats x DEF, DEF := overrides_baseStats x ATK)
      else overrides_baseStats x)"
  by (simp add: powerTrick_def)

lemma proteanLibero_ability:
  "opt_ability (proteanLibero i p x) =
     (if i \<in> {Some ''protean'', Some ''libero''} \<and> \<not> abilityToggled p then Some ''Pressure''
      else opt_ability x)"
  by (simp add: proteanLibero_def)

lemma intrepidDownload_ability:
  "opt_ability (intrepidDownload i x) =
     (if i \<in> {Some ''intrepidsword'', Some ''download''} then Some ''Pressure''
      else opt_ability x)"
  by (simp add: intrepidDownload_def)

lemma ruinCancel_ability:
  "opt_ability (ruinCancel e l i opp x) =
     (if (case opp of
            None \<Rightarrow> False
          | Some q \<Rightarrow>
              \<not> l \<and> isRuinId i \<and> truthyS (speciesForme q)
              \<and> isRuinId (formatId e (orElse (dirtyAbility q) (ability q)))
              \<and> formatId e (orElse (dirtyAbility q) (ability q)) = i)
      then Some ''Pressure'' else opt_ability x)"
  by (simp add: ruinCancel_def Let_def split: option.splits)

lemma createSmogonPokemon_fields:
  assumes "createSmogonPokemon e fmt (Some p) mv opp fld = Inr (Some opts)"
    and "detectGenFromFormat e fmt = Some g"
  shows "opt_status opts = resolveStatus p"
    and "opt_item opts = resolveItem g p"
    and "alliesFainted opts = resolveAlliesFainted e p mv"
    and "resolveTypes p = Inr (overrides_types opts)"
    and "opt_ivs opts =
           (if detectLegacyGen e (GenNum g)
            then (withDefault (ivs p) 30)(SPD := withDefault (ivs p) 30 SPA)
            else withDefault (ivs p) 31)"
    and "opt_evs opts =
           (if g = 1
            then (withDefault (evs p) (if detectLegacyGen e (GenNum g) then 252 else 0))
                   (SPD := withDefault (evs p) (if detectLegacyGen e (GenNum g) then 252 else 0) SPA)
            else withDefault (evs p) (if detectLegacyGen e (GenNum g) then 252 else 0))"
    and "opt_boosts opts =
           (if g = 1 then (resolveBoosts p)(SPD := resolveBoosts p SPA) else resolveBoosts p)"
    and "overrides_baseStats opts =
           (let b = (if truthyS (transformedForme p)
                     then (\<lambda>s. statAt (transformedBaseStats p) s)(HP := statAt (baseStats p) HP)
                     else if g = 1 then (resolveBaseStats p)(SPD := resolveBaseStats p SPA)
                     else resolveBaseStats p)
            in if nonEmptyObject e (volatiles p)
                  \<and> (case volatiles p of None \<Rightarrow> False | Some vs \<Rightarrow> ''powertrick'' \<in> set vs)
               then b(ATK := b DEF, DEF := b ATK) else b)"
    and "\<exists>pt. pseudoToggleAbility e (isDoubles fld)
                (formatId e (resolveAbility (detectLegacyGen e (GenNum g)) p)) = Inr pt
          \<and> opt_ability opts =
              (if (case opp of
                     None \<Rightarrow> False
                   | Some q \<Rightarrow>
                       \<not> detectLegacyGen e (GenNum g)
                       \<and> isRuinId (formatId e (resolveAbility (detectLegacyGen e (GenNum g)) p))
                       \<and> truthyS (speciesForme q)
                       \<and> isRuinId (formatId e (orElse (dirtyAbility q) (ability q)))
                       \<and> formatId e (orElse (dirtyAbility q) (ability q)) =
                           formatId e (resolveAbility (detectLegacyGen e (GenNum g)) p))
               then Some ''Pressure''
               else if formatId e (resolveAbility (detectLegacyGen e (GenNum g)) p)
                         \<in> {Some ''intrepidsword'', Some ''download''}
               then Some ''Pressure''
               else if formatId e (resolveAbility (detectLegacyGen e (GenNum g)) p)
                         \<in> {Some ''protean'', Some ''libero''} \<and> \<not> abilityToggled p
               then Some ''Pressure''
               else if pt \<and> \<not> (abilityToggleable p \<and> abilityToggled p) then Some ''Pressure''
               else resolveAbility (detectLegacyGen e (GenNum g)) p)"
proof -
  from assms(1) obtain g' pt opts0 opts1 where
    g': "detectGenFromFormat e fmt = Some g'"
    and init: "initialOptions e g' (detectLegacyGen e (GenNum g')) p mv pt = Inr opts0"
    and tr: "transformBaseStats p
           (ruinCancel e (detectLegacyGen e (GenNum g'))
              (formatId e (resolveAbility (detectLegacyGen e (GenNum g')) p)) opp
              (intrepidDownload (formatId e (resolveAbility (detectLegacyGen e (GenNum g')) p))
                 (proteanLibero (formatId e (resolveAbility (detectLegacyGen e (GenNum g')) p)) p
                    (gen1Special g' (legacySpdIv (detectLegacyGen e (GenNum g')) opts0))))) = Inr opts1"
    and pta: "pseudoToggleAbility e (isDoubles fld)
           (formatId e (resolveAbility (detectLegacyGen e (GenNum g')) p)) = Inr pt"
    and opts: "opts = powerTrick e p opts1"
    by (rule createSmogonPokemon_SomeE)
  from g' assms(2) have gg: "g' = g" by simp
  note f = initialOptions_fields [OF init [unfolded gg]]
  note t = transformBaseStats_Inr [OF tr [unfolded gg]]
  note pta = pta [unfolded gg]
  show "opt_status opts = resolveStatus p"
    unfolding opts t using f(1) by simp
  show "opt_item opts = resolveItem g p"
    unfolding opts t using f(2) by simp
  show "alliesFainted opts = resolveAlliesFainted e p mv"
    unfolding opts t using f(3) by simp
  show "resolveTypes p = Inr (overrides_types opts)"
    unfolding opts t using f(4) by simp
  show "opt_ivs opts =
           (if detectLegacyGen e (GenNum g)
            then (withDefault (ivs p) 30)(SPD := withDefault (ivs p) 30 SPA)
            else withDefault (ivs p) 31)"
    unfolding opts t using f(5) by (simp add: legacySpdIv_ivs)
  show "opt_evs opts =
           (if g = 1
            then (withDefault (evs p) (if detectLegacyGen e (GenNum g) then 252 else 0))
                   (SPD := withDefault (evs p) (if detectLegacyGen e (GenNum g) then 252 else 0) SPA)
            else withDefault (evs p) (if detectLegacyGen e (GenNum g) then 252 else 0))"
    unfolding opts t using f(6) by (simp add: gen1Special_fields)
  show "opt_boosts opts =
           (if g = 1 then (resolveBoosts p)(SPD := resolveBoosts p SPA) else resolveBoosts p)"
    unfolding opts t using f(7) by (simp add: gen1Special_fields)
  show "overrides_baseStats opts =
           (let b = (if truthyS (transformedForme p)
                     then (\<lambda>s. statAt (transformedBaseStats p) s)(HP := statAt (baseStats p) HP)
                     else if g = 1 then (resolveBaseStats p)(SPD := resolveBaseStats p SPA)
                     else resolveBaseStats p)
            in if nonEmptyObject e (volatiles p)
                  \<and> (case volatiles p of None \<Rightarrow> False | Some vs \<Rightarrow> ''powertrick'' \<in> set vs)
               then b(ATK := b DEF, DEF := b ATK) else b)"
    unfolding opts t using f(8) by (simp add: gen1Special_fields powerTrick_baseStats Let_def)
  have "opt_ability opts =
              (if (case opp of
                     None \<Rightarrow> False
                   | Some q \<Rightarrow>
                       \<not> detectLegacyGen e (GenNum g)
                       \<and> isRuinId (formatId e (resolveAbility (detectLegacyGen e (GenNum g)) p))
                       \<and> truthyS (speciesForme q)
                       \<and> isRuinId (formatId e (orElse (dirtyAbility q) (ability q)))
                       \<and> formatId e (orElse (dirtyAbility q) (ability q)) =
                           formatId e (resolveAbility (detectLegacyGen e (GenNum g)) p))
               then Some ''Pressure''
               else if formatId e (resolveAbility (detectLegacyGen e (GenNum g)) p)
                         \<in> {Some ''intrepidsword'', Some ''download''}
               then Some ''Pressure''
               else if formatId e (resolveAbility (detectLegacyGen e (GenNum g)) p)
                         \<in> {Some ''protean'', Some ''libero''} \<and> \<not> abilityToggled p
               then Some ''Pressure''
               else if pt \<and> \<not> (abilityToggleable p \<and> abilityToggled p) then Some ''Pressure''
               else resolveAbility (detectLegacyGen e (GenNum g)) p)"
    unfolding opts t using f(9)
    by (auto simp add: ruinCancel_ability intrepidDownload_ability proteanLibero_ability
        simp del: insert_iff)
  with pta show "\<exists>pt. pseudoToggleAbility e (isDoubles fld)
                (formatId e (resolveAbility (detectLegacyGen e (GenNum g)) p)) = Inr pt
          \<and> opt_ability opts =
              (if (case opp of
                     None \<Rightarrow> False
                   | Some q \<Rightarrow>
                       \<not> detectLegacyGen e (GenNum g)
                       \<and> isRuinId (formatId e (resolveAbility (detectLegacyGen e (GenNum g)) p))
                       \<and> truthyS (speciesForme q)
                       \<and> isRuinId (formatId e (orElse (dirtyAbility q) (ability q)))
                       \<and> formatId e (orElse (dirtyAbility q) (ability q)) =
                           formatId e (resolveAbility (detectLegacyGen e (GenNum g)) p))
               then Some ''Pressure''
               else if formatId e (resolveAbility (detectLegacyGen e (GenNum g)) p)
                         \<in> {Some ''intrepidsword'', Some ''download''}
               then Some ''Pressure''
               else if formatId e (resolveAbility (detectLegacyGen e (GenNum g)) p)
                         \<in> {Some ''protean'', Some ''libero''} \<and> \<not> abilityToggled p
               then Some ''Pressure''
               else if pt \<and> \<not> (abilityToggleable p \<and> abilityToggled p) then Some ''Pressure''
               else resolveAbility (detectLegacyGen e (GenNum g)) p)"
    by auto
qed

section \<open>The matchup adapter: no result\<close>

text \<open>
  C5.  When the format has no dex, or its generation is unknown or below 1, or the
  combatant is absent, or it has no \<open>calcdexId\<close> or no \<open>speciesForme\<close>,
  \<open>createSmogonPokemon\<close> returns \<open>null\<close>: it neither throws nor builds options.
\<close>

theorem createSmogonPokemon_null:
  assumes "getGenDexForFormat e fmt = None
           \<or> detectGenFromFormat e fmt = None
           \<or> (\<exists>g. detectGenFromFormat e fmt = Some g \<and> g < 1)
           \<or> pokemonArg = None
           \<or> (\<exists>p. pokemonArg = Some p
                  \<and> (\<not> truthyS (calcdexId p) \<or> \<not> truthyS (speciesForme p)))"
  shows "createSmogonPokemon e fmt pokemonArg moveName opponentPokemon field = Inr None"
proof (cases pokemonArg)
  case None
  then show ?thesis
    by (simp add: createSmogonPokemon_def Let_def)
next
  case (Some p)
  with assms have "getGenDexForFormat e fmt = None
      \<or> (case detectGenFromFormat e fmt of None \<Rightarrow> 0 | Some g \<Rightarrow> g) < 1
      \<or> \<not> truthyS (calcdexId p) \<or> \<not> truthyS (speciesForme p)"
    by (auto split: option.splits)
  with Some show ?thesis
    by (auto simp: createSmogonPokemon_def Let_def)
qed

theorem createSmogonPokemon_null_witness:
  "createSmogonPokemon exampleEnv ''gen9ou''
     (Some (examplePokemon\<lparr>speciesForme := None\<rparr>)) None None None = Inr None
   \<and> createSmogonPokemon exampleEnv ''gen9ou''
     (Some (examplePokemon\<lparr>calcdexId := Some ''''\<rparr>)) None None None = Inr None
   \<and> createSmogonPokemon exampleEnv ''gen9ou'' None None None None = Inr None
   \<and> createSmogonPokemon exampleEnv ''randombattle'' (Some examplePokemon) None None None
       = Inr None"
proof -
  have a: "\<not> truthyS (speciesForme (examplePokemon\<lparr>speciesForme := None\<rparr>))"
    by (simp add: truthyS_def)
  have b: "\<not> truthyS (calcdexId (examplePokemon\<lparr>calcdexId := Some ''''\<rparr>))"
    by (simp add: truthyS_def)
  have c: "detectGenFromFormat exampleEnv ''randombattle'' = None"
    by (simp add: exampleEnv_def exampleGen_def)
  show ?thesis
    using createSmogonPokemon_null [of exampleEnv "''gen9ou''"
        "Some (examplePokemon\<lparr>speciesForme := None\<rparr>)" None None None]
      createSmogonPokemon_null [of exampleEnv "''gen9ou''"
        "Some (examplePokemon\<lparr>calcdexId := Some ''''\<rparr>)" None None None]
      createSmogonPokemon_null [of exampleEnv "''gen9ou''" None None None None]
      createSmogonPokemon_null [of exampleEnv "''randombattle''" "Some examplePokemon"
        None None None]
      a b c
    by simp
qed

section \<open>The matchup adapter: transformation\<close>




section \<open>The matchup adapter: Protean and Libero\<close>

text \<open>
  C8, as the code has it.  When the id of the resolved ability is \<open>protean\<close> or
  \<open>libero\<close> and \<open>abilityToggled\<close> is off, the adapter hands the engine the neutral
  ability \<open>Pressure\<close> in place of the ability.  The types are forwarded all the same:
  the result's types are the first two of \<open>dirtyTypes\<close> when that list is non-empty, and
  of \<open>types\<close> otherwise, padded with \<open>null\<close>.
\<close>

theorem protean_libero_neutralized:
  assumes "createSmogonPokemon e fmt (Some p) moveName opponentPokemon field = Inr (Some opts)"
    and "detectGenFromFormat e fmt = Some g"
    and "formatId e (resolveAbility (detectLegacyGen e (GenNum g)) p)
           \<in> {Some ''protean'', Some ''libero''}"
    and "\<not> abilityToggled p"
  shows "opt_ability opts = Some ''Pressure''
       \<and> (\<forall>ts. dirtyTypes p = Some ts \<and> ts \<noteq> []
              \<longrightarrow> overrides_types opts = take 2 (map Some ts @ [None, None]))
       \<and> (\<forall>ts. (dirtyTypes p = None \<or> dirtyTypes p = Some []) \<and> types p = Some ts
              \<longrightarrow> overrides_types opts = take 2 (map Some ts @ [None, None]))"
proof (intro conjI)
  from createSmogonPokemon_fields(9) [OF assms(1,2)] assms(3,4)
  show "opt_ability opts = Some ''Pressure''"
    by (auto simp del: insert_iff)
  from createSmogonPokemon_fields(4) [OF assms(1,2)]
  show "\<forall>ts. dirtyTypes p = Some ts \<and> ts \<noteq> []
              \<longrightarrow> overrides_types opts = take 2 (map Some ts @ [None, None])"
    by (auto simp: resolveTypes_def)
  from createSmogonPokemon_fields(4) [OF assms(1,2)]
  show "\<forall>ts. (dirtyTypes p = None \<or> dirtyTypes p = Some []) \<and> types p = Some ts
              \<longrightarrow> overrides_types opts = take 2 (map Some ts @ [None, None])"
    by (auto simp: resolveTypes_def)
qed

theorem protean_libero_neutralized_witness:
  "map_sum id (map_option (\<lambda>opts. (opt_ability opts, overrides_types opts)))
     (createSmogonPokemon exampleEnv ''gen9ou''
        (Some (examplePokemon\<lparr>dirtyTypes := Some [''Poison'']\<rparr>)) None None None)
   = Inr (Some (Some ''Pressure'', [Some ''Poison'', None]))"
proof -
  let ?p = "examplePokemon\<lparr>dirtyTypes := Some [''Poison'']\<rparr>"
  have "case createSmogonPokemon exampleEnv ''gen9ou'' (Some ?p) None None None of
          Inr (Some opts) \<Rightarrow> True | _ \<Rightarrow> False"
    by code_simp
  then obtain opts where
    r: "createSmogonPokemon exampleEnv ''gen9ou'' (Some ?p) None None None = Inr (Some opts)"
    by (auto split: sum.splits option.splits)
  have g: "detectGenFromFormat exampleEnv ''gen9ou'' = Some 9"
    by code_simp
  have i: "formatId exampleEnv (resolveAbility (detectLegacyGen exampleEnv (GenNum 9)) ?p)
             \<in> {Some ''protean'', Some ''libero''}"
    by code_simp
  have a: "\<not> abilityToggled ?p"
    by code_simp
  have d: "dirtyTypes ?p = Some [''Poison'']"
    by simp
  show ?thesis
    unfolding r using protean_libero_neutralized [OF r g i a] d
    by simp
qed

text \<open>
  C8 as stated fails: with the ability Protean, no temporary type change and the types
  overridden to Poison, the override is what the engine receives as the types.
\<close>

theorem protean_libero_counterexample:
  "map_sum id (map_option overrides_types)
     (createSmogonPokemon exampleEnv ''gen9ou''
        (Some (examplePokemon
           \<lparr> ability := Some ''Protean'',
             abilityToggled := False,
             volatiles := Some [],
             types := Some [''Water'', ''Dark''],
             dirtyTypes := Some [''Poison''] \<rparr>))
        None None None)
   = Inr (Some [Some ''Poison'', None])"
  by code_simp

section \<open>The matchup adapter: the override layer\<close>










section \<open>The matchup adapter: Ruin abilities\<close>

lemma orElse_coalesce: "truthyS (coalesce a b) \<Longrightarrow> orElse a b = coalesce a b"
  by (cases a) (auto simp: orElse_def coalesce_def truthyS_def)

lemma resolveAbility_truthy:
  "truthyS (coalesce (dirtyAbility p) (ability p)) \<Longrightarrow>
   resolveAbility False p = coalesce (dirtyAbility p) (ability p)"
  by (simp add: resolveAbility_def orNull_def)

lemma createSmogonPokemon_no_opponent:
  assumes "detectGenFromFormat e fmt = Some g"
    and "\<And>x. ruinCancel e (detectLegacyGen e (GenNum g))
              (formatId e (resolveAbility (detectLegacyGen e (GenNum g)) p)) opp x = x"
  shows "createSmogonPokemon e fmt (Some p) mv opp fld
       = createSmogonPokemon e fmt (Some p) mv None fld"
proof -
  have none: "\<And>l i x. ruinCancel e l i None x = x"
    by (simp add: ruinCancel_def)
  show ?thesis
    using assms(1) by (simp add: createSmogonPokemon_def Let_def assms(2) none cong: sum.case_cong)
qed

lemma ruinCancel_other_id:
  assumes "truthyS (coalesce (dirtyAbility p) (ability p))"
    and "truthyS (coalesce (dirtyAbility q) (ability q))"
    and "formatId e (coalesce (dirtyAbility p) (ability p)) = Some i"
    and "formatId e (coalesce (dirtyAbility q) (ability q)) = Some j"
    and "i \<noteq> j"
  shows "ruinCancel e l (formatId e (resolveAbility l p)) (Some q) x = x"
proof (cases l)
  case True
  then show ?thesis by (simp add: ruinCancel_def)
next
  case False
  with assms show ?thesis
    by (simp add: ruinCancel_def Let_def orElse_coalesce resolveAbility_truthy)
qed

lemma ruinCancel_no_species:
  "\<not> truthyS (speciesForme q) \<or> l \<Longrightarrow> ruinCancel e l i (Some q) x = x"
  by (auto simp: ruinCancel_def)

text \<open>
  C4, as the code has it.  Take a combatant and an opponent whose resolved abilities
  (\<open>dirtyAbility ?? ability\<close>) are Ruin abilities: non-empty names whose ids end in
  \<open>ofruin\<close>.  When the two ids are the same, the generation is not legacy and the
  opponent has a species (a non-empty \<open>speciesForme\<close>), every call of the adapter for the
  combatant against this opponent that returns a result hands the engine the neutral
  ability \<open>Pressure\<close>.  When the two ids differ, or the opponent has no species, or the
  generation is legacy, the opponent changes nothing: the call returns what it returns
  without an opponent.  Either combatant of a pair can be the one the adapter is called
  for.
\<close>

theorem ruin_cancellation:
  assumes "detectGenFromFormat e fmt = Some g"
    and "truthyS (coalesce (dirtyAbility p) (ability p))"
    and "truthyS (coalesce (dirtyAbility q) (ability q))"
    and "formatId e (coalesce (dirtyAbility p) (ability p)) = Some i"
    and "formatId e (coalesce (dirtyAbility q) (ability q)) = Some j"
    and "endsWith i ''ofruin''"
    and "endsWith j ''ofruin''"
  shows "(i = j \<and> \<not> detectLegacyGen e (GenNum g) \<and> truthyS (speciesForme q) \<longrightarrow>
            (\<forall>opts. createSmogonPokemon e fmt (Some p) moveName (Some q) field = Inr (Some opts)
               \<longrightarrow> opt_ability opts = Some ''Pressure''))
       \<and> (i \<noteq> j \<or> \<not> truthyS (speciesForme q) \<or> detectLegacyGen e (GenNum g) \<longrightarrow>
            createSmogonPokemon e fmt (Some p) moveName (Some q) field
              = createSmogonPokemon e fmt (Some p) moveName None field)"
proof (intro conjI impI allI)
  fix opts
  assume same: "i = j \<and> \<not> detectLegacyGen e (GenNum g) \<and> truthyS (speciesForme q)"
    and r: "createSmogonPokemon e fmt (Some p) moveName (Some q) field = Inr (Some opts)"
  from same assms have ids:
    "formatId e (resolveAbility (detectLegacyGen e (GenNum g)) p) = Some i"
    "formatId e (orElse (dirtyAbility q) (ability q)) = Some i"
    "isRuinId (Some i)"
    by (simp_all add: resolveAbility_truthy orElse_coalesce isRuinId_def)
  from createSmogonPokemon_fields(9) [OF r assms(1)] same ids
  show "opt_ability opts = Some ''Pressure''"
    by (auto simp del: insert_iff)
next
  assume d: "i \<noteq> j \<or> \<not> truthyS (speciesForme q) \<or> detectLegacyGen e (GenNum g)"
  show "createSmogonPokemon e fmt (Some p) moveName (Some q) field
          = createSmogonPokemon e fmt (Some p) moveName None field"
    using assms(1)
  proof (rule createSmogonPokemon_no_opponent)
    fix x
    show "ruinCancel e (detectLegacyGen e (GenNum g))
              (formatId e (resolveAbility (detectLegacyGen e (GenNum g)) p)) (Some q) x = x"
    proof (cases "i \<noteq> j")
      case True
      with assms(2,3,4,5) show ?thesis by (rule ruinCancel_other_id)
    next
      case False
      with d have "\<not> truthyS (speciesForme q) \<or> detectLegacyGen e (GenNum g)" by simp
      then show ?thesis by (rule ruinCancel_no_species)
    qed
  qed
qed

theorem ruin_cancellation_witness:
  "map_sum id (map_option opt_ability)
     (createSmogonPokemon exampleEnv ''gen9ou''
        (Some (examplePokemon\<lparr>speciesForme := Some ''Chien-Pao'', ability := Some ''Sword of Ruin''\<rparr>)) None
        (Some (examplePokemon\<lparr>speciesForme := Some ''Chien-Pao'', ability := Some ''Pressure'',
              dirtyAbility := Some ''Sword of Ruin''\<rparr>)) None)
   = Inr (Some (Some ''Pressure''))
   \<and> map_sum id (map_option opt_ability)
     (createSmogonPokemon exampleEnv ''gen9ou''
        (Some (examplePokemon\<lparr>speciesForme := Some ''Chien-Pao'', ability := Some ''Pressure'',
              dirtyAbility := Some ''Sword of Ruin''\<rparr>)) None
        (Some (examplePokemon\<lparr>speciesForme := Some ''Chien-Pao'', ability := Some ''Sword of Ruin''\<rparr>)) None)
   = Inr (Some (Some ''Pressure''))
   \<and> map_sum id (map_option opt_ability)
     (createSmogonPokemon exampleEnv ''gen9ou''
        (Some (examplePokemon\<lparr>speciesForme := Some ''Chien-Pao'', ability := Some ''Sword of Ruin''\<rparr>)) None
        (Some (examplePokemon\<lparr>speciesForme := Some ''Chi-Yu'', ability := Some ''Beads of Ruin''\<rparr>)) None)
   = Inr (Some (Some ''Sword of Ruin''))
   \<and> map_sum id (map_option opt_ability)
     (createSmogonPokemon exampleEnv ''gen9ou''
        (Some (examplePokemon\<lparr>speciesForme := Some ''Chi-Yu'', ability := Some ''Beads of Ruin''\<rparr>)) None
        (Some (examplePokemon\<lparr>speciesForme := Some ''Chien-Pao'', ability := Some ''Sword of Ruin''\<rparr>)) None)
   = Inr (Some (Some ''Beads of Ruin''))
   \<and> map_sum id (map_option opt_ability)
     (createSmogonPokemon exampleEnv ''gen9ou''
        (Some (examplePokemon\<lparr>speciesForme := Some ''Chien-Pao'', ability := Some ''Sword of Ruin''\<rparr>)) None
        (Some (examplePokemon\<lparr>speciesForme := None, ability := Some ''Sword of Ruin''\<rparr>)) None)
   = Inr (Some (Some ''Sword of Ruin''))"
proof -
  let ?a = "examplePokemon\<lparr>speciesForme := Some ''Chien-Pao'', ability := Some ''Sword of Ruin''\<rparr>"
  let ?b = "examplePokemon\<lparr>speciesForme := Some ''Chien-Pao'', ability := Some ''Pressure'',
              dirtyAbility := Some ''Sword of Ruin''\<rparr>"
  let ?c = "examplePokemon\<lparr>speciesForme := Some ''Chi-Yu'', ability := Some ''Beads of Ruin''\<rparr>"
  let ?d = "examplePokemon\<lparr>speciesForme := None, ability := Some ''Sword of Ruin''\<rparr>"
  have g: "detectGenFromFormat exampleEnv ''gen9ou'' = Some 9"
    by code_simp
  have l: "\<not> detectLegacyGen exampleEnv (GenNum 9)"
    by code_simp
  have ta: "truthyS (coalesce (dirtyAbility ?a) (ability ?a))"
    and tb: "truthyS (coalesce (dirtyAbility ?b) (ability ?b))"
    and tc: "truthyS (coalesce (dirtyAbility ?c) (ability ?c))"
    and td: "truthyS (coalesce (dirtyAbility ?d) (ability ?d))"
    by code_simp+
  have ia: "formatId exampleEnv (coalesce (dirtyAbility ?a) (ability ?a)) = Some ''swordofruin''"
    and ib: "formatId exampleEnv (coalesce (dirtyAbility ?b) (ability ?b)) = Some ''swordofruin''"
    and ic: "formatId exampleEnv (coalesce (dirtyAbility ?c) (ability ?c)) = Some ''beadsofruin''"
    and id: "formatId exampleEnv (coalesce (dirtyAbility ?d) (ability ?d)) = Some ''swordofruin''"
    by code_simp+
  have rs: "endsWith ''swordofruin'' ''ofruin''" and rb: "endsWith ''beadsofruin'' ''ofruin''"
    by code_simp+
  have sa: "truthyS (speciesForme ?a)" and sb: "truthyS (speciesForme ?b)"
    and sd: "\<not> truthyS (speciesForme ?d)"
    by code_simp+
  have "case createSmogonPokemon exampleEnv ''gen9ou'' (Some ?a) None (Some ?b) None of
          Inr (Some opts) \<Rightarrow> True | _ \<Rightarrow> False"
    by code_simp
  then obtain o1 where
    r1: "createSmogonPokemon exampleEnv ''gen9ou'' (Some ?a) None (Some ?b) None = Inr (Some o1)"
    by (auto split: sum.splits option.splits)
  have "case createSmogonPokemon exampleEnv ''gen9ou'' (Some ?b) None (Some ?a) None of
          Inr (Some opts) \<Rightarrow> True | _ \<Rightarrow> False"
    by code_simp
  then obtain o2 where
    r2: "createSmogonPokemon exampleEnv ''gen9ou'' (Some ?b) None (Some ?a) None = Inr (Some o2)"
    by (auto split: sum.splits option.splits)
  from ruin_cancellation [OF g ta tb ia ib rs rs, of None None] l sb r1
  have s1: "opt_ability o1 = Some ''Pressure''"
    by simp
  from ruin_cancellation [OF g tb ta ib ia rs rs, of None None] l sa r2
  have s2: "opt_ability o2 = Some ''Pressure''"
    by simp
  from ruin_cancellation [OF g ta tc ia ic rs rb, of None None]
  have o3: "createSmogonPokemon exampleEnv ''gen9ou'' (Some ?a) None (Some ?c) None
       = createSmogonPokemon exampleEnv ''gen9ou'' (Some ?a) None None None"
    by simp
  from ruin_cancellation [OF g tc ta ic ia rb rs, of None None]
  have o4: "createSmogonPokemon exampleEnv ''gen9ou'' (Some ?c) None (Some ?a) None
       = createSmogonPokemon exampleEnv ''gen9ou'' (Some ?c) None None None"
    by simp
  from ruin_cancellation [OF g ta td ia id rs rs, of None None] sd
  have o5: "createSmogonPokemon exampleEnv ''gen9ou'' (Some ?a) None (Some ?d) None
       = createSmogonPokemon exampleEnv ''gen9ou'' (Some ?a) None None None"
    by blast
  have alone:
    "map_sum id (map_option opt_ability)
       (createSmogonPokemon exampleEnv ''gen9ou'' (Some ?a) None None None)
     = Inr (Some (Some ''Sword of Ruin''))"
    "map_sum id (map_option opt_ability)
       (createSmogonPokemon exampleEnv ''gen9ou'' (Some ?c) None None None)
     = Inr (Some (Some ''Beads of Ruin''))"
    by code_simp+
  show ?thesis
    unfolding r1 r2 o3 o4 o5 using s1 s2 alone by simp
qed

text \<open>
  C4 as stated fails: against an opponent that holds the same Sword of Ruin and has no
  species, the combatant reaches the engine with Sword of Ruin, not with the neutral
  ability.
\<close>

theorem ruin_cancellation_counterexample:
  "map_sum id (map_option opt_ability)
     (createSmogonPokemon exampleEnv ''gen9ou''
        (Some (examplePokemon\<lparr>speciesForme := Some ''Chien-Pao'', ability := Some ''Sword of Ruin''\<rparr>)) None
        (Some (examplePokemon\<lparr>speciesForme := None, ability := Some ''Sword of Ruin''\<rparr>)) None)
   = Inr (Some (Some ''Sword of Ruin''))"
  by code_simp

section \<open>The matchup adapter: the one special stat of generation 1\<close>

text \<open>
  C3, where the code departs from it.  The block that couples Special Defense to Special
  Attack in generation 1 runs before the block that replaces the base stats of a
  transformed combatant, and the replacement is not coupled again.  So for a transformed
  combatant, in generation 1 as in any other, the Special Attack and the Special Defense
  of the result are the two entries of \<open>transformedBaseStats\<close> as they stand.
\<close>

theorem transformed_special_not_coupled:
  assumes "createSmogonPokemon e fmt (Some p) moveName opponentPokemon field = Inr (Some opts)"
    and "truthyS (transformedForme p)"
  shows "overrides_baseStats opts SPA = statAt (transformedBaseStats p) SPA
       \<and> overrides_baseStats opts SPD = statAt (transformedBaseStats p) SPD"
proof -
  from assms(1) obtain g where g: "detectGenFromFormat e fmt = Some g"
    by (rule createSmogonPokemon_SomeE)
  show ?thesis
    using createSmogonPokemon_fields(8) [OF assms(1) g] assms(2)
    by (simp add: Let_def)
qed

text \<open>
  In generation 1, a combatant transformed into a forme whose table lists Special Attack
  100 and Special Defense 90 reaches the engine with these two different values.
\<close>

theorem transformed_special_not_coupled_witness:
  "map_sum id
     (map_option (\<lambda>opts. (overrides_baseStats opts SPA, overrides_baseStats opts SPD)))
     (createSmogonPokemon exampleEnv ''gen1ou''
        (Some (examplePokemon
           \<lparr> speciesForme := Some ''Ditto'',
             transformedForme := Some ''Mew'',
             transformedBaseStats :=
               Some [HP \<mapsto> 100, ATK \<mapsto> 100, DEF \<mapsto> 100, SPA \<mapsto> 100, SPD \<mapsto> 90, SPE \<mapsto> 100] \<rparr>))
        None None None)
   = Inr (Some (Some 100, Some 90))"
proof -
  let ?p = "examplePokemon
           \<lparr> speciesForme := Some ''Ditto'',
             transformedForme := Some ''Mew'',
             transformedBaseStats :=
               Some [HP \<mapsto> 100, ATK \<mapsto> 100, DEF \<mapsto> 100, SPA \<mapsto> 100, SPD \<mapsto> 90, SPE \<mapsto> 100] \<rparr>"
  have "case createSmogonPokemon exampleEnv ''gen1ou'' (Some ?p) None None None of
          Inr (Some opts) \<Rightarrow> True | _ \<Rightarrow> False"
    by code_simp
  then obtain opts where
    r: "createSmogonPokemon exampleEnv ''gen1ou'' (Some ?p) None None None = Inr (Some opts)"
    by (auto split: sum.splits option.splits)
  have t: "truthyS (transformedForme ?p)"
    by (simp add: truthyS_def)
  show ?thesis
    unfolding r using transformed_special_not_coupled [OF r t]
    by (simp add: statAt_def)
qed

text \<open>
  What holds of C3.  In generation 1, for a combatant for which the adapter returns a
  result, the Special Defense EV and boost of the result equal the Special Attack ones;
  so does the Special Defense IV when generation 1 is a legacy generation, and so does
  the Special Defense base stat when the combatant is not transformed, Power Trick or
  not.
\<close>

theorem gen1_special_coupling:
  assumes "createSmogonPokemon e fmt (Some p) moveName opponentPokemon field = Inr (Some opts)"
    and "detectGenFromFormat e fmt = Some 1"
  shows "opt_evs opts SPD = opt_evs opts SPA
       \<and> opt_boosts opts SPD = opt_boosts opts SPA
       \<and> (detectLegacyGen e (GenNum 1) \<longrightarrow> opt_ivs opts SPD = opt_ivs opts SPA)
       \<and> (\<not> truthyS (transformedForme p)
            \<longrightarrow> overrides_baseStats opts SPD = overrides_baseStats opts SPA)"
  using createSmogonPokemon_fields(5,6,7,8) [OF assms]
  by (simp add: Let_def)

theorem gen1_special_coupling_witness:
  "map_sum id
     (map_option (\<lambda>opts. (opt_evs opts SPD = opt_evs opts SPA,
                          opt_boosts opts SPD = opt_boosts opts SPA,
                          opt_ivs opts SPD = opt_ivs opts SPA,
                          overrides_baseStats opts SPD = overrides_baseStats opts SPA)))
     (createSmogonPokemon exampleEnv ''gen1ou''
        (Some (examplePokemon
           \<lparr> ivs := Some [SPA \<mapsto> 30, SPD \<mapsto> 0],
             volatiles := Some [''powertrick''] \<rparr>))
        None None None)
   = Inr (Some (True, True, True, True))"
proof -
  let ?p = "examplePokemon
           \<lparr> ivs := Some [SPA \<mapsto> 30, SPD \<mapsto> 0],
             volatiles := Some [''powertrick''] \<rparr>"
  have "case createSmogonPokemon exampleEnv ''gen1ou'' (Some ?p) None None None of
          Inr (Some opts) \<Rightarrow> True | _ \<Rightarrow> False"
    by code_simp
  then obtain opts where
    r: "createSmogonPokemon exampleEnv ''gen1ou'' (Some ?p) None None None = Inr (Some opts)"
    by (auto split: sum.splits option.splits)
  have g: "detectGenFromFormat exampleEnv ''gen1ou'' = Some 1"
    by code_simp
  have l: "detectLegacyGen exampleEnv (GenNum 1)"
    by code_simp
  have t: "\<not> truthyS (transformedForme ?p)"
    by code_simp
  show ?thesis
    unfolding r using gen1_special_coupling [OF r g] l t
    by simp
qed

section \<open>The preset matcher\<close>

lemma stat_in_allStats: "s \<in> set allStats"
  by (cases s) (simp_all add: allStats_def)

lemma appliedPreset_SomeD:
  assumes "appliedPreset e fmt (Some p) (Some pr)"
  shows "movesMatch (moves p) (presetMoves pr)"
    and "ivsMatch (detectLegacyGen e fmt) (ivs p) (presetIvs pr)"
    and "\<not> detectLegacyGen e fmt \<Longrightarrow> evsMatch (evs p) (presetEvs pr)"
  using assms
  by (auto simp: appliedPreset_def Let_def split: option.splits if_splits)

text \<open>
  How \<open>appliedPreset\<close> depends on the two move lists and on the IVs and EVs of the
  combatant: on nothing of them but the three checks.
\<close>

lemma appliedPreset_cong:
  assumes "appliedPreset e fmt (Some p) (Some pr)"
    and "movesMatch pm qm"
    and "ivsMatch (detectLegacyGen e fmt) iv (presetIvs pr)"
    and "detectLegacyGen e fmt \<or> evsMatch ev (presetEvs pr)"
  shows "appliedPreset e fmt (Some (p\<lparr>moves := pm, ivs := iv, evs := ev\<rparr>))
           (Some (pr\<lparr>presetMoves := qm\<rparr>))"
  using assms
  by (auto simp: appliedPreset_def Let_def split: option.splits if_splits)

text \<open>
  C6.  A preset that \<open>appliedPreset\<close> accepts for a combatant has a non-empty move
  list, the combatant has one too, and every move of the preset is among the
  combatant's.  Nothing more is asked of the moves: a match stays a match when the
  combatant's list is replaced by any list holding at least the same moves (more moves,
  another order), and when the preset's list is replaced by any non-empty list of moves
  of the combatant (fewer moves, another order).
\<close>

theorem appliedPreset_moves_subset:
  "(appliedPreset e fmt (Some p) (Some pr) \<longrightarrow>
      (\<exists>pm qm. moves p = Some pm \<and> presetMoves pr = Some qm
             \<and> pm \<noteq> [] \<and> qm \<noteq> [] \<and> set qm \<subseteq> set pm))
   \<and> (appliedPreset e fmt (Some p) (Some pr) \<and> moves p = Some pm \<and> set pm \<subseteq> set pm'
        \<longrightarrow> appliedPreset e fmt (Some (p\<lparr>moves := Some pm'\<rparr>)) (Some pr))
   \<and> (appliedPreset e fmt (Some p) (Some pr) \<and> moves p = Some pm
         \<and> qm' \<noteq> [] \<and> set qm' \<subseteq> set pm
        \<longrightarrow> appliedPreset e fmt (Some p) (Some (pr\<lparr>presetMoves := Some qm'\<rparr>)))"
proof (intro conjI impI)
  assume a: "appliedPreset e fmt (Some p) (Some pr)"
  from appliedPreset_SomeD(1) [OF a]
  show "\<exists>pm qm. moves p = Some pm \<and> presetMoves pr = Some qm
             \<and> pm \<noteq> [] \<and> qm \<noteq> [] \<and> set qm \<subseteq> set pm"
    by (auto simp: movesMatch_def list_all_iff split: option.splits)
next
  assume a: "appliedPreset e fmt (Some p) (Some pr) \<and> moves p = Some pm \<and> set pm \<subseteq> set pm'"
  then have ap: "appliedPreset e fmt (Some p) (Some pr)" by simp
  from appliedPreset_SomeD(1) [OF ap] a
  have m: "movesMatch (Some pm') (presetMoves pr)"
    by (auto simp: movesMatch_def list_all_iff split: option.splits)
  from appliedPreset_cong [OF ap m appliedPreset_SomeD(2) [OF ap]] appliedPreset_SomeD(3) [OF ap]
  have "appliedPreset e fmt (Some (p\<lparr>moves := Some pm', ivs := ivs p, evs := evs p\<rparr>))
           (Some (pr\<lparr>presetMoves := presetMoves pr\<rparr>))"
    by blast
  then show "appliedPreset e fmt (Some (p\<lparr>moves := Some pm'\<rparr>)) (Some pr)"
    by simp
next
  assume a: "appliedPreset e fmt (Some p) (Some pr) \<and> moves p = Some pm
         \<and> qm' \<noteq> [] \<and> set qm' \<subseteq> set pm"
  then have ap: "appliedPreset e fmt (Some p) (Some pr)" by simp
  from appliedPreset_SomeD(1) [OF ap] a
  have m: "movesMatch (moves p) (Some qm')"
    by (auto simp: movesMatch_def list_all_iff split: option.splits)
  from appliedPreset_cong [OF ap m appliedPreset_SomeD(2) [OF ap]] appliedPreset_SomeD(3) [OF ap]
  have "appliedPreset e fmt (Some (p\<lparr>moves := moves p, ivs := ivs p, evs := evs p\<rparr>))
           (Some (pr\<lparr>presetMoves := Some qm'\<rparr>))"
    by blast
  then show "appliedPreset e fmt (Some p) (Some (pr\<lparr>presetMoves := Some qm'\<rparr>))"
    by simp
qed

theorem appliedPreset_moves_subset_witness:
  "appliedPreset exampleEnv (FormatName ''gen9ou'') (Some examplePokemon) (Some examplePreset)
   \<and> moves examplePokemon = Some [''Surf'', ''Dark Pulse'', ''Ice Beam'', ''U-turn'']
   \<and> presetMoves examplePreset = Some [''Ice Beam'', ''Surf'']
   \<and> appliedPreset exampleEnv (FormatName ''gen9ou'')
        (Some (examplePokemon\<lparr>moves := Some [''U-turn'', ''Surf'', ''Hydro Pump'', ''Ice Beam'', ''Dark Pulse'']\<rparr>))
        (Some examplePreset)
   \<and> appliedPreset exampleEnv (FormatName ''gen9ou'') (Some examplePokemon)
        (Some (examplePreset\<lparr>presetMoves := Some [''Surf'', ''Ice Beam'', ''U-turn'']\<rparr>))"
proof -
  have a: "appliedPreset exampleEnv (FormatName ''gen9ou'') (Some examplePokemon)
             (Some examplePreset)"
    by code_simp
  have m: "moves examplePokemon = Some [''Surf'', ''Dark Pulse'', ''Ice Beam'', ''U-turn'']"
    and q: "presetMoves examplePreset = Some [''Ice Beam'', ''Surf'']"
    by (simp_all add: examplePokemon_def examplePreset_def)
  have s1: "set [''Surf'', ''Dark Pulse'', ''Ice Beam'', ''U-turn'']
              \<subseteq> set [''U-turn'', ''Surf'', ''Hydro Pump'', ''Ice Beam'', ''Dark Pulse'']"
    by simp
  have s2: "[''Surf'', ''Ice Beam'', ''U-turn''] \<noteq> []
            \<and> set [''Surf'', ''Ice Beam'', ''U-turn'']
                \<subseteq> set [''Surf'', ''Dark Pulse'', ''Ice Beam'', ''U-turn'']"
    by simp
  note T = appliedPreset_moves_subset [of exampleEnv "FormatName ''gen9ou''" examplePokemon
      examplePreset "[''Surf'', ''Dark Pulse'', ''Ice Beam'', ''U-turn'']"
      "[''U-turn'', ''Surf'', ''Hydro Pump'', ''Ice Beam'', ''Dark Pulse'']"
      "[''Surf'', ''Ice Beam'', ''U-turn'']"]
  from T a m s1 have b: "appliedPreset exampleEnv (FormatName ''gen9ou'')
        (Some (examplePokemon\<lparr>moves := Some [''U-turn'', ''Surf'', ''Hydro Pump'', ''Ice Beam'', ''Dark Pulse'']\<rparr>))
        (Some examplePreset)"
    by blast
  from T a m s2 have c: "appliedPreset exampleEnv (FormatName ''gen9ou'') (Some examplePokemon)
        (Some (examplePreset\<lparr>presetMoves := Some [''Surf'', ''Ice Beam'', ''U-turn'']\<rparr>))"
    by blast
  from a m q b c show ?thesis
    by blast
qed

text \<open>
  C7, as the code has it.  For a preset that \<open>appliedPreset\<close> accepts for a combatant:
  every IV the combatant lists equals the preset's IV for that stat, or the default (30
  in a legacy generation, 31 otherwise) when the preset lists none, except that in a
  legacy generation the IVs of HP and of Special Defense are not compared; outside the
  legacy generations every EV the combatant lists equals the preset's EV, or 0 when the
  preset lists none.  In a legacy generation the HP and Special Defense IVs and all the
  EVs are skipped: a match stays a match whatever they are changed to.
\<close>

theorem appliedPreset_ivs_evs:
  assumes "appliedPreset e fmt (Some p) (Some pr)"
  shows "(\<forall>s v. statAt (ivs p) s = Some v
                \<and> \<not> (detectLegacyGen e fmt \<and> (s = HP \<or> s = SPD))
            \<longrightarrow> (case statAt (presetIvs pr) s of
                   None \<Rightarrow> (if detectLegacyGen e fmt then 30 else 31)
                 | Some w \<Rightarrow> w) = v)
       \<and> (\<not> detectLegacyGen e fmt \<longrightarrow>
            (\<forall>s v. statAt (evs p) s = Some v
               \<longrightarrow> (case statAt (presetEvs pr) s of None \<Rightarrow> 0 | Some w \<Rightarrow> w) = v))
       \<and> (detectLegacyGen e fmt \<longrightarrow>
            (\<forall>iv ev. (\<forall>s. s \<noteq> HP \<and> s \<noteq> SPD \<longrightarrow> statAt iv s = statAt (ivs p) s)
               \<longrightarrow> appliedPreset e fmt (Some (p\<lparr>ivs := iv, evs := ev\<rparr>)) (Some pr)))"
proof (intro conjI impI allI)
  fix s v
  assume a: "statAt (ivs p) s = Some v \<and> \<not> (detectLegacyGen e fmt \<and> (s = HP \<or> s = SPD))"
  from appliedPreset_SomeD(2) [OF assms] stat_in_allStats [of s] a
  show "(case statAt (presetIvs pr) s of
           None \<Rightarrow> (if detectLegacyGen e fmt then 30 else 31)
         | Some w \<Rightarrow> w) = v"
    unfolding ivsMatch_def list_all_iff by (auto split: option.splits)
next
  fix s v
  assume l: "\<not> detectLegacyGen e fmt" and a: "statAt (evs p) s = Some v"
  from appliedPreset_SomeD(3) [OF assms l] stat_in_allStats [of s] a
  show "(case statAt (presetEvs pr) s of None \<Rightarrow> 0 | Some w \<Rightarrow> w) = v"
    unfolding evsMatch_def list_all_iff by (auto split: option.splits)
next
  fix iv ev
  assume l: "detectLegacyGen e fmt"
    and same: "\<forall>s. s \<noteq> HP \<and> s \<noteq> SPD \<longrightarrow> statAt iv s = statAt (ivs p) s"
  have i: "ivsMatch (detectLegacyGen e fmt) iv (presetIvs pr)"
    unfolding ivsMatch_def list_all_iff
  proof (intro ballI)
    fix s
    assume "s \<in> set allStats"
    with appliedPreset_SomeD(2) [OF assms]
    have old: "case statAt (ivs p) s of
                 None \<Rightarrow> True
               | Some v \<Rightarrow>
                   (detectLegacyGen e fmt \<and> s \<in> {HP, SPD})
                   \<or> (case statAt (presetIvs pr) s of
                         None \<Rightarrow> (if detectLegacyGen e fmt then 30 else 31)
                       | Some w \<Rightarrow> w) = v"
      unfolding ivsMatch_def list_all_iff by blast
    show "case statAt iv s of
            None \<Rightarrow> True
          | Some v \<Rightarrow>
              (detectLegacyGen e fmt \<and> s \<in> {HP, SPD})
              \<or> (case statAt (presetIvs pr) s of
                    None \<Rightarrow> (if detectLegacyGen e fmt then 30 else 31)
                  | Some w \<Rightarrow> w) = v"
    proof (cases "s = HP \<or> s = SPD")
      case True
      with l show ?thesis by (auto split: option.splits)
    next
      case False
      with same have "statAt iv s = statAt (ivs p) s" by simp
      with old show ?thesis by simp
    qed
  qed
  from l have ev: "detectLegacyGen e fmt \<or> evsMatch ev (presetEvs pr)"
    by simp
  from appliedPreset_cong [OF assms appliedPreset_SomeD(1) [OF assms] i ev]
  have "appliedPreset e fmt (Some (p\<lparr>moves := moves p, ivs := iv, evs := ev\<rparr>))
          (Some (pr\<lparr>presetMoves := presetMoves pr\<rparr>))" .
  then show "appliedPreset e fmt (Some (p\<lparr>ivs := iv, evs := ev\<rparr>)) (Some pr)"
    by simp
qed

text \<open>
  C7 as stated fails: in generation 1 a combatant with an HP IV of 14 matches a preset
  that lists no IVs, whose HP IV is therefore the default 30.
\<close>

theorem appliedPreset_ivs_counterexample:
  "detectLegacyGen exampleEnv (FormatName ''gen1ou'')
   \<and> statAt (presetIvs examplePreset) HP = None
   \<and> appliedPreset exampleEnv (FormatName ''gen1ou'')
       (Some (examplePokemon
          \<lparr>ivs := Some [HP \<mapsto> 14, ATK \<mapsto> 30, DEF \<mapsto> 30, SPA \<mapsto> 30, SPD \<mapsto> 30, SPE \<mapsto> 30]\<rparr>))
       (Some examplePreset)"
  by code_simp

theorem appliedPreset_ivs_evs_witness:
  "appliedPreset exampleEnv (FormatName ''gen1ou'')
     (Some (examplePokemon
        \<lparr>ivs := Some [HP \<mapsto> 14, ATK \<mapsto> 30, DEF \<mapsto> 30, SPA \<mapsto> 30, SPD \<mapsto> 30, SPE \<mapsto> 30]\<rparr>))
     (Some examplePreset)
   \<and> appliedPreset exampleEnv (FormatName ''gen1ou'')
     (Some (examplePokemon
        \<lparr>ivs := Some [HP \<mapsto> 6, ATK \<mapsto> 30, DEF \<mapsto> 30, SPA \<mapsto> 30, SPD \<mapsto> 2, SPE \<mapsto> 30],
         evs := None\<rparr>))
     (Some examplePreset)
   \<and> appliedPreset exampleEnv (FormatName ''gen9ou'') (Some examplePokemon) (Some examplePreset)
   \<and> statAt (ivs examplePokemon) SPE = Some 31
   \<and> statAt (presetIvs examplePreset) SPE = None
   \<and> statAt (evs examplePokemon) SPA = Some 252
   \<and> statAt (presetEvs examplePreset) SPA = Some 252"
proof -
  let ?p = "examplePokemon
        \<lparr>ivs := Some [HP \<mapsto> 14, ATK \<mapsto> 30, DEF \<mapsto> 30, SPA \<mapsto> 30, SPD \<mapsto> 30, SPE \<mapsto> 30]\<rparr>"
  let ?iv = "Some [HP \<mapsto> 6, ATK \<mapsto> 30, DEF \<mapsto> 30, SPA \<mapsto> 30, SPD \<mapsto> 2, SPE \<mapsto> (30::int)]"
  have a: "appliedPreset exampleEnv (FormatName ''gen1ou'') (Some ?p) (Some examplePreset)"
    by code_simp
  have l: "detectLegacyGen exampleEnv (FormatName ''gen1ou'')"
    by code_simp
  have same: "\<forall>s. s \<noteq> HP \<and> s \<noteq> SPD \<longrightarrow> statAt ?iv s = statAt (ivs ?p) s"
    by (simp add: statAt_def)
  from appliedPreset_ivs_evs [OF a] l same
  have "appliedPreset exampleEnv (FormatName ''gen1ou'')
          (Some (?p\<lparr>ivs := ?iv, evs := None\<rparr>)) (Some examplePreset)"
    by blast
  then have b: "appliedPreset exampleEnv (FormatName ''gen1ou'')
     (Some (examplePokemon
        \<lparr>ivs := Some [HP \<mapsto> 6, ATK \<mapsto> 30, DEF \<mapsto> 30, SPA \<mapsto> 30, SPD \<mapsto> 2, SPE \<mapsto> 30],
         evs := None\<rparr>))
     (Some examplePreset)"
    by simp
  have c: "appliedPreset exampleEnv (FormatName ''gen9ou'') (Some examplePokemon)
             (Some examplePreset)"
    by code_simp
  have n: "\<not> detectLegacyGen exampleEnv (FormatName ''gen9ou'')"
    by code_simp
  have i: "statAt (ivs examplePokemon) SPE = Some 31"
    and e: "statAt (evs examplePokemon) SPA = Some 252"
    by (simp_all add: statAt_def examplePokemon_def)
  note T = appliedPreset_ivs_evs [OF c]
  from T have "statAt (ivs examplePokemon) SPE = Some 31
        \<and> \<not> (detectLegacyGen exampleEnv (FormatName ''gen9ou'') \<and> (SPE = HP \<or> SPE = SPD))
      \<longrightarrow> (case statAt (presetIvs examplePreset) SPE of
             None \<Rightarrow> (if detectLegacyGen exampleEnv (FormatName ''gen9ou'') then 30 else 31)
           | Some w \<Rightarrow> w) = 31"
    by blast
  with i n have pi: "statAt (presetIvs examplePreset) SPE = None
                     \<or> statAt (presetIvs examplePreset) SPE = Some 31"
    by (auto split: option.splits)
  from T n have "statAt (evs examplePokemon) SPA = Some 252
      \<longrightarrow> (case statAt (presetEvs examplePreset) SPA of None \<Rightarrow> 0 | Some w \<Rightarrow> w) = 252"
    by blast
  with e have pe: "statAt (presetEvs examplePreset) SPA = Some 252"
    by (auto split: option.splits)
  have "statAt (presetIvs examplePreset) SPE \<noteq> Some 31"
    by (simp add: statAt_def examplePreset_def)
  with pi have "statAt (presetIvs examplePreset) SPE = None"
    by simp
  with a b c i e pe show ?thesis
    by blast
qed

section \<open>Further properties\<close>

text \<open>
  The examples of the dehydrators' documentation: \<open>true\<close> dehydrates to \<open>y\<close> and
  \<open>false\<close> to \<open>n\<close>; the array \<open>['Ice', 'Ghost']\<close> to \<open>Ice/Ghost\<close>; a player side to
  its truthy properties as \<open>key=value\<close> pairs; per-side settings to their slots in the
  sorted order of the keys, a list slot joined by commas.
\<close>

theorem dehydrator_examples:
  "dehydrateBoolean (JBool True) = ''y'' \<and> dehydrateBoolean (JBool False) = ''n''
   \<and> dehydrateArray (Some [JStr ''Ice'', JStr ''Ghost'']) ''/'' = Inr (Some ''Ice/Ghost'')
   \<and> dehydratePlayerSide
         (Some [(''spikes'', JNum 0), (''isSR'', JBool True), (''isReflect'', JBool True),
                (''isLightScreen'', JBool False), (''isAuroraVeil'', JBool False)]) ''/''
       = Inr ''isSR=y/isReflect=y''
   \<and> dehydratePerSide
         (Some [(''auth'', JBool False), (''p1'', JBool True), (''p2'', JBool True),
                (''p3'', JBool True), (''p4'', JBool True)]) ''/'' '',''
       = Inr ''n/y/y/y/y''
   \<and> dehydratePerSide
         (Some [(''auth'', JArr []), (''p1'', JArr [JStr ''iv'', JStr ''ev'']),
                (''p2'', JArr [JStr ''iv'', JStr ''ev'']), (''p3'', JArr [JStr ''iv'', JStr ''ev'']),
                (''p4'', JArr [JStr ''iv'', JStr ''ev''])]) ''/'' '',''
       = Inr ''/iv,ev/iv,ev/iv,ev/iv,ev''"
  by code_simp

text \<open>
  A preset built from a combatant's own resolved state matches it: the combatant's
  nature, its ability (\<open>dirtyAbility || ability\<close>), its item
  (\<open>dirtyItem ?? (prevItem || item)\<close>), its moves, its IVs and its EVs, all of the four
  first non-empty, in a format with a generation other than 0, for a combatant with a
  species and a preset with a source.
\<close>

theorem appliedPreset_reflexive:
  assumes "truthyFormat fmt"
    and "(case fmt of FormatName s \<Rightarrow> detectGenFromFormat e s | GenNum n \<Rightarrow> Some n) = Some g"
    and "g \<noteq> 0"
    and "truthyS (speciesForme p)"
    and "truthyS (source pr)"
    and "presetNature pr = nature p" and "truthyS (nature p)"
    and "presetAbility pr = orElse (dirtyAbility p) (ability p)"
    and "truthyS (orElse (dirtyAbility p) (ability p))"
    and "presetItem pr = coalesce (dirtyItem p) (orElse (prevItem p) (item p))"
    and "truthyS (coalesce (dirtyItem p) (orElse (prevItem p) (item p)))"
    and "presetMoves pr = moves p" and "moves p = Some ms" and "ms \<noteq> []"
    and "presetIvs pr = ivs p"
    and "presetEvs pr = evs p"
  shows "appliedPreset e fmt (Some p) (Some pr)"
proof -
  have m: "movesMatch (moves p) (presetMoves pr)"
    using assms(12,13,14) by (simp add: movesMatch_def list_all_iff)
  have i: "ivsMatch (detectLegacyGen e fmt) (ivs p) (presetIvs pr)"
    using assms(15) by (simp add: ivsMatch_def list_all_iff split: option.splits)
  have ev: "evsMatch (evs p) (presetEvs pr)"
    using assms(16) by (simp add: evsMatch_def list_all_iff split: option.splits)
  show ?thesis
    using assms(1-11) m i ev
    by (simp add: appliedPreset_def Let_def sameString_def)
qed

theorem appliedPreset_reflexive_witness:
  "appliedPreset exampleEnv (FormatName ''gen9ou'') (Some examplePokemon)
     (Some \<lparr> source = Some ''server'',
             presetAbility = Some ''Protean'',
             presetItem = Some ''Life Orb'',
             presetNature = Some ''Timid'',
             presetMoves = moves examplePokemon,
             presetIvs = ivs examplePokemon,
             presetEvs = evs examplePokemon \<rparr>)"
proof -
  let ?pr = "\<lparr> source = Some ''server'',
             presetAbility = Some ''Protean'',
             presetItem = Some ''Life Orb'',
             presetNature = Some ''Timid'',
             presetMoves = moves examplePokemon,
             presetIvs = ivs examplePokemon,
             presetEvs = evs examplePokemon \<rparr>"
  show ?thesis
  proof (rule appliedPreset_reflexive [where g = 9
        and ms = "[''Surf'', ''Dark Pulse'', ''Ice Beam'', ''U-turn'']"])
    show "truthyFormat (FormatName ''gen9ou'')" by code_simp
    show "(case FormatName ''gen9ou'' of
             FormatName s \<Rightarrow> detectGenFromFormat exampleEnv s
           | GenNum n \<Rightarrow> Some n) = Some 9" by code_simp
    show "(9::int) \<noteq> 0" by simp
    show "truthyS (speciesForme examplePokemon)" by code_simp
    show "truthyS (source ?pr)" by code_simp
    show "presetNature ?pr = nature examplePokemon" by code_simp
    show "truthyS (nature examplePokemon)" by code_simp
    show "presetAbility ?pr = orElse (dirtyAbility examplePokemon) (ability examplePokemon)"
      by code_simp
    show "truthyS (orElse (dirtyAbility examplePokemon) (ability examplePokemon))"
      by code_simp
    show "presetItem ?pr
            = coalesce (dirtyItem examplePokemon)
                (orElse (prevItem examplePokemon) (item examplePokemon))"
      by code_simp
    show "truthyS (coalesce (dirtyItem examplePokemon)
                     (orElse (prevItem examplePokemon) (item examplePokemon)))"
      by code_simp
    show "presetMoves ?pr = moves examplePokemon" by simp
    show "moves examplePokemon = Some [''Surf'', ''Dark Pulse'', ''Ice Beam'', ''U-turn'']"
      by code_simp
    show "[''Surf'', ''Dark Pulse'', ''Ice Beam'', ''U-turn''] \<noteq> []" by simp
    show "presetIvs ?pr = ivs examplePokemon" by simp
    show "presetEvs ?pr = evs examplePokemon" by simp
  qed
qed

text \<open>
  Intrepid Sword and Download: when the id of the resolved ability is \<open>intrepidsword\<close>
  or \<open>download\<close>, the adapter hands the engine the neutral ability \<open>Pressure\<close>
  (the client has already reported the boost).
\<close>

theorem intrepid_download_neutralized:
  assumes "createSmogonPokemon e fmt (Some p) moveName opponentPokemon field = Inr (Some opts)"
    and "detectGenFromFormat e fmt = Some g"
    and "formatId e (resolveAbility (detectLegacyGen e (GenNum g)) p)
           \<in> {Some ''intrepidsword'', Some ''download''}"
  shows "opt_ability opts = Some ''Pressure''"
  using createSmogonPokemon_fields(9) [OF assms(1,2)] assms(3)
  by (auto simp del: insert_iff)

theorem intrepid_download_neutralized_witness:
  "map_sum id (map_option opt_ability)
     (createSmogonPokemon exampleEnv ''gen9ou''
        (Some (examplePokemon\<lparr>speciesForme := Some ''Zacian'', ability := Some ''Intrepid Sword''\<rparr>))
        None None None)
   = Inr (Some (Some ''Pressure''))"
proof -
  let ?p = "examplePokemon\<lparr>speciesForme := Some ''Zacian'', ability := Some ''Intrepid Sword''\<rparr>"
  have "case createSmogonPokemon exampleEnv ''gen9ou'' (Some ?p) None None None of
          Inr (Some opts) \<Rightarrow> True | _ \<Rightarrow> False"
    by code_simp
  then obtain opts where
    r: "createSmogonPokemon exampleEnv ''gen9ou'' (Some ?p) None None None = Inr (Some opts)"
    by (auto split: sum.splits option.splits)
  have g: "detectGenFromFormat exampleEnv ''gen9ou'' = Some 9"
    by code_simp
  have i: "formatId exampleEnv (resolveAbility (detectLegacyGen exampleEnv (GenNum 9)) ?p)
             \<in> {Some ''intrepidsword'', Some ''download''}"
    by code_simp
  show ?thesis
    unfolding r using intrepid_download_neutralized [OF r g i]
    by simp
qed

end
